theory Spec2Isabelle
  imports Complex_Main "HOL-Library.Word"
begin

section \<open>Chicken Hop: the simulation core of game.js\<close>

text \<open>
  The embedding follows \<^verbatim>\<open>src/game.js\<close>. JavaScript numbers are modelled as reals with
  exact arithmetic; array indices and loop counters are naturals. A JavaScript string is
  its sequence of UTF-16 code units. The global objects \<^verbatim>\<open>state\<close>, \<^verbatim>\<open>player\<close>,
  \<^verbatim>\<open>world\<close>, the three spawners, \<^verbatim>\<open>terrain\<close> and the entity pools are the fields of
  one record that every function takes and returns. Obstacles and platforms live in a
  store of objects addressed by references, because \<^verbatim>\<open>player.ground\<close> aliases them.
  Drawing, sound and the DOM are outside the model: they write none of these fields
  (except the splash placement of \<^verbatim>\<open>render\<close>, which is modelled).

  Arrays are lists, read with \<open>!\<close> and written with list update. That is what the
  source does as long as the index is within the array, and it is in every state the
  program reaches: \<^verbatim>\<open>state.hearts\<close> and \<^verbatim>\<open>state.heartsSmooth\<close> keep their two entries,
  the index of the active heart stays below 2, and \<^verbatim>\<open>Math.random()\<close> below 1 keeps the
  index into \<^verbatim>\<open>obstacleTypes\<close> below 4 (lemmas \<open>run_inv_reachable\<close>, \<open>reachable_stable\<close>
  and \<open>pick_in_range\<close>).
\<close>

subsection \<open>Names (normalizeName)\<close>

type_synonym jsstring = "16 word list"

text \<open>The code units matched by the regular expression class \<open>\s\<close>, which are also
  the ones \<open>String.prototype.trim\<close> strips (white space and line terminators).\<close>

definition is_space :: "16 word \<Rightarrow> bool" where
  "is_space c \<longleftrightarrow>
     c = 0x9 \<or> c = 0xA \<or> c = 0xB \<or> c = 0xC \<or> c = 0xD \<or> c = 0x20 \<or> c = 0xA0
     \<or> c = 0x1680 \<or> (0x2000 \<le> c \<and> c \<le> 0x200A) \<or> c = 0x2028 \<or> c = 0x2029
     \<or> c = 0x202F \<or> c = 0x205F \<or> c = 0x3000 \<or> c = 0xFEFF"

text \<open>\<open>s.replace(/\s+/g, ' ')\<close>: every maximal run of white space becomes one U+0020.
  The flag says that the scan is inside a run whose replacement was already emitted.\<close>

fun replace_ws :: "bool \<Rightarrow> jsstring \<Rightarrow> jsstring" where
  "replace_ws in_run [] = []"
| "replace_ws in_run (c # cs) =
     (if is_space c then (if in_run then replace_ws True cs else 0x20 # replace_ws True cs)
      else c # replace_ws False cs)"

definition trim :: "jsstring \<Rightarrow> jsstring" where
  "trim s = rev (dropWhile is_space (rev (dropWhile is_space s)))"

definition Nugget :: jsstring where
  "Nugget = [0x4E, 0x75, 0x67, 0x67, 0x65, 0x74]"

text \<open>\<open>normalizeName(v)\<close>. The argument is a string, or \<open>None\<close> for \<open>null\<close> and
  \<open>undefined\<close>, which \<open>v ?? ''\<close> turns into the empty string.\<close>

definition normalizeName :: "jsstring option \<Rightarrow> jsstring" where
  "normalizeName v =
     (let s = trim (replace_ws False (case v of None \<Rightarrow> [] | Some str \<Rightarrow> str));
          cut = take 14 s
      in if length cut \<noteq> 0 then cut else Nugget)"

text \<open>The string that \<^verbatim>\<open>String(v ?? '')\<close> yields.\<close>

definition str_of :: "jsstring option \<Rightarrow> jsstring" where
  "str_of v = (case v of None \<Rightarrow> [] | Some s \<Rightarrow> s)"

text \<open>A string in which every white-space code unit is a U+0020 that is followed by
  no white space.\<close>

fun single_spaced :: "jsstring \<Rightarrow> bool" where
  "single_spaced [] = True"
| "single_spaced [c] = (if is_space c then c = 0x20 else True)"
| "single_spaced (c # d # cs) =
     ((if is_space c then c = 0x20 \<and> \<not> is_space d else True) \<and> single_spaced (d # cs))"

subsection \<open>Helpers\<close>

definition clamp :: "real \<Rightarrow> real \<Rightarrow> real \<Rightarrow> real" where
  "clamp v a b = max a (min b v)"

definition lerp :: "real \<Rightarrow> real \<Rightarrow> real \<Rightarrow> real" where
  "lerp a b t = a + (b - a) * t"

definition aabb :: "real \<Rightarrow> real \<Rightarrow> real \<Rightarrow> real \<Rightarrow> real \<Rightarrow> real \<Rightarrow> real \<Rightarrow> real \<Rightarrow> bool" where
  "aabb ax ay aw ah bx by bw bh \<longleftrightarrow>
     ax < bx + bw \<and> ax + aw > bx \<and> ay < by + bh \<and> ay + ah > by"

text \<open>\<open>Math.floor\<close>, as a number again.\<close>

definition Math_floor :: "real \<Rightarrow> real" where
  "Math_floor v = of_int \<lfloor>v\<rfloor>"

subsection \<open>Data model\<close>

datatype mode = Title | Playing | Paused | Gameover

datatype timeMode = Slow | Normal | Fast

datatype kind = Block | Book | Robot | Plant | Shelf | Step

datatype pkind = Feather | Dust | Yolk

type_synonym ref = nat

text \<open>An obstacle or a platform: an object \<^verbatim>\<open>{x, y, w, h, kind, bob}\<close>. The colour of an
  obstacle is fixed by its kind and only drawn, so it is left out.\<close>

record solid =
  e_x :: real
  e_y :: real
  e_w :: real
  e_h :: real
  e_kind :: kind
  e_bob :: real

record pickup =
  k_x :: real
  k_y :: real
  k_r :: real
  k_t :: real
  k_taken :: bool
  k_big :: bool
  k_value :: real

record egg =
  g_x :: real
  g_y :: real
  g_r :: real
  g_t :: real
  g_smashed :: bool
  g_smashT :: real

text \<open>A particle; \<open>q_rot\<close> is \<open>None\<close> for dust and yolk, which have no \<^verbatim>\<open>rot\<close> field.\<close>

record particle =
  q_x :: real
  q_y :: real
  q_vx :: real
  q_vy :: real
  q_life :: real
  q_t :: real
  q_kind :: pkind
  q_rot :: "real option"
  q_vr :: real

text \<open>The object \<^verbatim>\<open>state\<close> (the name and look of the chicken are left to the UI).\<close>

record state =
  mode :: mode
  st_t :: real
  st_dt :: real
  timeScale :: real
  timeMode :: timeMode
  speed :: real
  difficulty :: real
  score :: real
  best :: real
  corn :: real
  heartsMax :: nat
  heartIndex :: nat
  hearts :: "real list"
  heartsSmooth :: "real list"
  flyFuelMax :: real
  flyFuel :: real
  flyRefuelDelay :: real
  flyRefuelCd :: real
  shake :: real
  hintBlink :: real

text \<open>The object \<^verbatim>\<open>player\<close>, fields prefixed \<open>p_\<close>.\<close>

record player = state +
  p_x :: real
  p_y :: real
  p_vx :: real
  p_vy :: real
  p_w :: real
  p_h :: real
  p_onGround :: bool
  p_jumpBuffered :: real
  p_coyote :: real
  p_anim :: real
  p_invuln :: real
  p_ground :: "ref option"
  p_drop :: real
  p_cluckCd :: real
  p_flyHold :: real

text \<open>The object \<^verbatim>\<open>world\<close>.\<close>

record world = player +
  floorY :: real
  leftBound :: real
  rightBound :: real
  gravity :: real
  jumpVel :: real
  scroll :: real
  roomHue :: real
  popHue :: real
  popHue2 :: real
  plateauLift :: real

text \<open>The spawners, \<^verbatim>\<open>terrain\<close>, the entity pools, the held keys, the time stamp
  \<^verbatim>\<open>last\<close> of the main loop, and the source of \<^verbatim>\<open>Math.random()\<close>: the sequence
  \<open>random\<close> of its future results and the number \<open>rng\<close> of results consumed.\<close>

record game = world +
  sp_cd :: real
  runChunksLeft :: real
  needLanding :: bool
  platformSpawner_cd :: real
  eggSpawner_cd :: real
  terrain_level :: real
  terrain_runLeft :: real
  objs :: "ref \<Rightarrow> solid"
  next_ref :: ref
  obstacles :: "ref list"
  platforms :: "ref list"
  pickups :: "pickup list"
  eggs :: "egg list"
  particles :: "particle list"
  keys :: "string set"
  last_ms :: real
  random :: "nat \<Rightarrow> real"
  rng :: nat

subsection \<open>Random numbers\<close>

definition Math_random :: "game \<Rightarrow> real \<times> game" where
  "Math_random s = (random s (rng s), s\<lparr>rng := rng s + 1\<rparr>)"

definition rand :: "real \<Rightarrow> real \<Rightarrow> game \<Rightarrow> real \<times> game" where
  "rand a b s = (let (r, s1) = Math_random s in (a + r * (b - a), s1))"

definition randi :: "real \<Rightarrow> real \<Rightarrow> game \<Rightarrow> real \<times> game" where
  "randi a b s = (let (v, s1) = rand a (b + 1) s in (Math_floor v, s1))"

text \<open>\<^verbatim>\<open>Math.random()\<close> returns a number in \<open>[0, 1)\<close>.\<close>

definition random_ok :: "game \<Rightarrow> bool" where
  "random_ok s \<longleftrightarrow> (\<forall>n. 0 \<le> random s n \<and> random s n < 1)"

subsection \<open>Particles\<close>

text \<open>A loop \<^verbatim>\<open>for (let i = 0; i < n; i++)\<close> runs its body once for every natural number
  below \<open>n\<close>, that is \<open>nat \<lceil>n\<rceil>\<close> times.\<close>

definition feather_particle :: "real \<Rightarrow> real \<Rightarrow> game \<Rightarrow> game" where
  "feather_particle x y s =
     (let (vx, s1) = rand (-240) 240 s;
          (vy, s2) = rand (-520) (-120) s1;
          (life, s3) = rand 0.35 0.65 s2;
          (rot, s4) = rand 0 (pi * 2) s3;
          (vr, s5) = rand (-10) 10 s4
      in s5\<lparr>particles := particles s5 @
           [\<lparr>q_x = x, q_y = y, q_vx = vx, q_vy = vy, q_life = life, q_t = 0,
             q_kind = Feather, q_rot = Some rot, q_vr = vr\<rparr>]\<rparr>)"

definition featherBurst :: "real \<Rightarrow> real \<Rightarrow> game \<Rightarrow> game" where
  "featherBurst x y s =
     (let (n, s1) = randi 7 11 s in ((feather_particle x y) ^^ nat \<lceil>n\<rceil>) s1)"

definition dust_particle :: "real \<Rightarrow> real \<Rightarrow> game \<Rightarrow> game" where
  "dust_particle x y s =
     (let (dx, s1) = rand (-10) 10 s;
          (dy, s2) = rand (-6) 6 s1;
          (vx, s3) = rand (-140) 140 s2;
          (vy, s4) = rand (-220) (-40) s3;
          (life, s5) = rand 0.25 0.45 s4
      in s5\<lparr>particles := particles s5 @
           [\<lparr>q_x = x + dx, q_y = y + dy, q_vx = vx, q_vy = vy, q_life = life, q_t = 0,
             q_kind = Dust, q_rot = None, q_vr = 0\<rparr>]\<rparr>)"

definition dustPuff :: "real \<Rightarrow> real \<Rightarrow> game \<Rightarrow> game" where
  "dustPuff x y s =
     (let (n, s1) = randi 6 10 s in ((dust_particle x y) ^^ nat \<lceil>n\<rceil>) s1)"

definition yolk_particle :: "real \<Rightarrow> real \<Rightarrow> game \<Rightarrow> game" where
  "yolk_particle x y s =
     (let (vx, s1) = rand (-260) 260 s;
          (vy, s2) = rand (-520) (-160) s1;
          (life, s3) = rand 0.25 0.45 s2
      in s3\<lparr>particles := particles s3 @
           [\<lparr>q_x = x, q_y = y, q_vx = vx, q_vy = vy, q_life = life, q_t = 0,
             q_kind = Yolk, q_rot = None, q_vr = 0\<rparr>]\<rparr>)"

definition yolkBurst :: "real \<Rightarrow> real \<Rightarrow> game \<Rightarrow> game" where
  "yolkBurst x y s =
     (let (n, s1) = randi 10 16 s in ((yolk_particle x y) ^^ nat \<lceil>n\<rceil>) s1)"

subsection \<open>Spawning entities\<close>

text \<open>The table \<^verbatim>\<open>obstacleTypes\<close>: kind, width, height.\<close>

definition obstacleTypes :: "(kind \<times> real \<times> real) list" where
  "obstacleTypes = [(Block, 46, 34), (Book, 54, 22), (Robot, 52, 40), (Plant, 42, 44)]"

text \<open>In the spawn functions \<open>W\<close> is \<^verbatim>\<open>canvas.width\<close> and an absent argument \<open>x\<close> is
  \<open>None\<close>; \<^verbatim>\<open>x ?? e\<close> evaluates \<open>e\<close>, with its random draw, only then.\<close>

definition spawnPlatform :: "real \<Rightarrow> real \<Rightarrow> real \<Rightarrow> real option \<Rightarrow> kind \<Rightarrow> game \<Rightarrow> game" where
  "spawnPlatform W w y xo knd s =
     (let (x, s1) = (case xo of Some x \<Rightarrow> (x, s)
                     | None \<Rightarrow> (let (v, s') = rand 120 220 s in (W + v, s')));
          r = next_ref s1
      in s1\<lparr>objs := (objs s1)(r := \<lparr>e_x = x, e_y = y, e_w = w, e_h = 18, e_kind = knd, e_bob = 0\<rparr>),
             next_ref := r + 1,
             platforms := platforms s1 @ [r]\<rparr>)"

text \<open>\<open>Math.round\<close> and \<open>Math.ceil\<close>; \<open>Math.sign\<close> is \<open>sgn\<close>.\<close>

definition Math_round :: "real \<Rightarrow> real" where
  "Math_round v = of_int \<lfloor>v + 1 / 2\<rfloor>"

definition Math_ceil :: "real \<Rightarrow> real" where
  "Math_ceil v = of_int \<lceil>v\<rceil>"

definition spawnStairs :: "real \<Rightarrow> real \<Rightarrow> real \<Rightarrow> real \<Rightarrow> game \<Rightarrow> real \<times> game" where
  "spawnStairs W levelFrom levelTo startX s =
     (let stepRise = 16;
          stepW = 78;
          liftFrom = (if levelFrom = 1 then plateauLift s else 0);
          liftTo = (if levelTo = 1 then plateauLift s else 0);
          delta = liftTo - liftFrom
      in if delta = 0 then (startX, s)
         else
           let steps = clamp (Math_ceil (\<bar>delta\<bar> / stepRise)) 3 7;
               dir = sgn delta;
               s1 = fold (\<lambda>i s'.
                      let lift = liftFrom + dir * stepRise * (of_nat i + 1);
                          y = floorY s' - Math_round lift
                      in spawnPlatform W stepW y (Some (startX + of_nat i * stepW)) Step s')
                    [0 ..< nat \<lceil>steps\<rceil>] s
           in (startX + steps * stepW, s1))"

definition spawnObstacle :: "real \<Rightarrow> real \<Rightarrow> real \<Rightarrow> kind \<Rightarrow> real option \<Rightarrow> game \<Rightarrow> game" where
  "spawnObstacle W w h knd xo s =
     (let (x, s1) = (case xo of Some x \<Rightarrow> (x, s)
                     | None \<Rightarrow> (let (v, s') = rand 40 120 s in (W + v, s')));
          (bob, s2) = rand 0 (pi * 2) s1;
          r = next_ref s2
      in s2\<lparr>objs := (objs s2)(r := \<lparr>e_x = x, e_y = floorY s2 - h, e_w = w, e_h = h,
                                       e_kind = knd, e_bob = bob\<rparr>),
             next_ref := r + 1,
             obstacles := obstacles s2 @ [r]\<rparr>)"

definition spawnCorn :: "real \<Rightarrow> real option \<Rightarrow> game \<Rightarrow> game" where
  "spawnCorn W xo s =
     (let (size, s1) = randi 14 18 s;
          (lift, s2) = randi 64 118 s1;
          (x, s3) = (case xo of Some x \<Rightarrow> (x, s2)
                     | None \<Rightarrow> (let (v, s') = rand 60 180 s2 in (W + v, s')))
      in s3\<lparr>pickups := pickups s3 @
           [\<lparr>k_x = x, k_y = floorY s3 - lift, k_r = size, k_t = 0, k_taken = False,
             k_big = False, k_value = 1\<rparr>]\<rparr>)"

definition spawnBigCorn :: "real \<Rightarrow> real option \<Rightarrow> game \<Rightarrow> game" where
  "spawnBigCorn W xo s =
     (let (size, s1) = randi 20 26 s;
          (lift, s2) = randi 170 250 s1;
          (x, s3) = (case xo of Some x \<Rightarrow> (x, s2)
                     | None \<Rightarrow> (let (v, s') = rand 120 260 s2 in (W + v, s')))
      in s3\<lparr>pickups := pickups s3 @
           [\<lparr>k_x = x, k_y = floorY s3 - lift, k_r = size, k_t = 0, k_taken = False,
             k_big = True, k_value = 3\<rparr>]\<rparr>)"

definition spawnEgg :: "real \<Rightarrow> real option \<Rightarrow> game \<Rightarrow> game" where
  "spawnEgg W xo s =
     (let (r, s1) = randi 12 15 s;
          (x, s2) = (case xo of Some x \<Rightarrow> (x, s1)
                     | None \<Rightarrow> (let (v, s') = rand 120 260 s1 in (W + v, s')))
      in s2\<lparr>eggs := eggs s2 @
           [\<lparr>g_x = x, g_y = floorY s2 - r, g_r = r, g_t = 0, g_smashed = False,
             g_smashT = 0\<rparr>]\<rparr>)"

subsection \<open>Damage, game over, reset\<close>

definition setTimeMode :: "timeMode \<Rightarrow> game \<Rightarrow> game" where
  "setTimeMode m s =
     (case m of
        Slow \<Rightarrow> s\<lparr>timeScale := 0.55, timeMode := Slow\<rparr>
      | Fast \<Rightarrow> s\<lparr>timeScale := 1.6, timeMode := Fast\<rparr>
      | Normal \<Rightarrow> s\<lparr>timeScale := 1.0, timeMode := Normal\<rparr>)"

definition gameOver :: "game \<Rightarrow> game" where
  "gameOver s = s\<lparr>mode := Gameover, best := max (best s) (Math_floor (score s))\<rparr>"

text \<open>\<^verbatim>\<open>hurt(obstacle, amount = 12)\<close>; \<open>ob\<close> is the reference of the obstacle. The body
  after the two guards is split at the feather burst: the hit with its knock-back, then
  the block that handles an empty heart.\<close>

definition knock_back :: "ref \<Rightarrow> real \<Rightarrow> game \<Rightarrow> game" where
  "knock_back ob amount s =
     (let obstacleCenterX = e_x (objs s ob) + e_w (objs s ob) * 0.5;
          s1 = s\<lparr>hearts := (hearts s)[heartIndex s := max 0 (hearts s ! heartIndex s - amount)],
                 p_invuln := 1.0,
                 shake := max (shake s) 0.10\<rparr>;
          pMid = p_x s1 + p_w s1 * 0.5;
          dir = (if pMid < obstacleCenterX then - 1 else 1 :: real);
          s2 = s1\<lparr>p_vx := 320 * dir, p_vy := min (p_vy s1) (- 380), p_onGround := False\<rparr>;
          s3 = (if dir < 0 then s2\<lparr>p_x := e_x (objs s2 ob) - p_w s2 - 10\<rparr>
                else s2\<lparr>p_x := e_x (objs s2 ob) + e_w (objs s2 ob) + 10\<rparr>)
      in s3\<lparr>p_x := clamp (p_x s3) (leftBound s3) (rightBound s3)\<rparr>)"

definition heart_lost :: "game \<Rightarrow> game" where
  "heart_lost s =
     (if hearts s ! heartIndex s \<le> 0 then
        (if heartIndex s < heartsMax s - 1 then
           let s1 = s\<lparr>hearts := (hearts s)[heartIndex s := 0]\<rparr>;
               s2 = s1\<lparr>heartIndex := heartIndex s1 + 1\<rparr>
           in s2\<lparr>hearts := (hearts s2)[heartIndex s2 := 100],
                 heartsSmooth := (heartsSmooth s2)[heartIndex s2 := 100],
                 p_invuln := 1.2,
                 shake := 0.18\<rparr>
         else gameOver s)
      else s)"

definition hurt :: "ref \<Rightarrow> real \<Rightarrow> game \<Rightarrow> game" where
  "hurt ob amount s =
     (if mode s \<noteq> Playing then s
      else if p_invuln s > 0 then s
      else
        let s1 = knock_back ob amount s
        in heart_lost (featherBurst (p_x s1 + p_w s1 * 0.55) (p_y s1 + p_h s1 * 0.55) s1))"

text \<open>The remainder \<^verbatim>\<open>a % b\<close>, truncated towards zero.\<close>

definition js_rem :: "real \<Rightarrow> real \<Rightarrow> real" where
  "js_rem a b = a - b * of_int (if 0 \<le> a / b then \<lfloor>a / b\<rfloor> else \<lceil>a / b\<rceil>)"

text \<open>\<^verbatim>\<open>resetRun()\<close>, with the canvas size \<open>W\<close>, \<open>H\<close> that \<^verbatim>\<open>fitCanvas()\<close> leaves.
  Emptying a pool leaves its objects in the store.\<close>

definition resetRun :: "real \<Rightarrow> real \<Rightarrow> game \<Rightarrow> game" where
  "resetRun W H s =
     (let s1 = s\<lparr>floorY := Math_floor (H * 0.78),
                   leftBound := Math_floor (W * 0.08),
                   rightBound := Math_floor (W * 0.62)\<rparr>;
          s2 = s1\<lparr>p_x := leftBound s1 + Math_floor (W * 0.16), p_y := floorY s1 - p_h s1\<rparr>;
          s3 = s2\<lparr>obstacles := [], platforms := [], pickups := [], eggs := [], particles := [],
                   sp_cd := 0.35, runChunksLeft := 0, needLanding := False,
                   platformSpawner_cd := 1.4, eggSpawner_cd := 1.2,
                   terrain_level := 0, terrain_runLeft := 0\<rparr>;
          s4 = s3\<lparr>st_t := 0, st_dt := 0, speed := 360, difficulty := 0, score := 0, corn := 0,
                   heartIndex := 0,
                   hearts := (hearts s3)[0 := 100, 1 := 100],
                   heartsSmooth := (heartsSmooth s3)[0 := 100, 1 := 100],
                   shake := 0, hintBlink := 0,
                   flyFuel := flyFuelMax s3, flyRefuelCd := 0\<rparr>;
          s5 = setTimeMode (timeMode s4) s4;
          s6 = s5\<lparr>p_vx := 0, p_vy := 0, p_onGround := True, p_jumpBuffered := 0, p_coyote := 0,
                   p_anim := 0, p_invuln := 0, p_ground := None, p_drop := 0, p_cluckCd := 0,
                   p_flyHold := 0, scroll := 0\<rparr>;
          (hue, s7) = randi 14 34 s6;
          s8 = s7\<lparr>roomHue := hue\<rparr>;
          (a, s9) = randi 110 190 s8;
          s10 = s9\<lparr>popHue := js_rem (roomHue s9 + a) 360\<rparr>;
          (b, s11) = randi 220 300 s10
      in s11\<lparr>popHue2 := js_rem (roomHue s11 + b) 360\<rparr>)"

definition startGame :: "real \<Rightarrow> real \<Rightarrow> game \<Rightarrow> game" where
  "startGame W H s = (resetRun W H s)\<lparr>mode := Playing\<rparr>"

subsection \<open>The tick: timers, input and physics\<close>

text \<open>The parts of \<^verbatim>\<open>update(dt)\<close>, in the order of the source; \<open>W\<close> and \<open>H\<close> are the
  width and height of the canvas.\<close>

definition world_dims :: "real \<Rightarrow> real \<Rightarrow> game \<Rightarrow> game" where
  "world_dims W H s =
     s\<lparr>floorY := Math_floor (H * 0.78),
       leftBound := Math_floor (W * 0.08),
       rightBound := Math_floor (W * 0.62)\<rparr>"

text \<open>The loop that eases the displayed hearts towards \<open>target i\<close>.\<close>

definition smooth_hearts :: "real \<Rightarrow> (nat \<Rightarrow> real) \<Rightarrow> game \<Rightarrow> game" where
  "smooth_hearts dt target s =
     s\<lparr>heartsSmooth :=
         fold (\<lambda>i hs. hs[i := lerp (hs ! i) (target i) (1 - 0.00001 powr dt)])
           [0 ..< heartsMax s] (heartsSmooth s)\<rparr>"

text \<open>The branch taken when the mode is not \<^verbatim>\<open>'playing'\<close>.\<close>

definition idle_update :: "real \<Rightarrow> game \<Rightarrow> game" where
  "idle_update dt s =
     (let s1 = s\<lparr>hintBlink := hintBlink s + dt\<rparr>
      in smooth_hearts dt (\<lambda>i. if mode s1 = Title then 100 else hearts s1 ! i) s1)"

definition ramp :: "real \<Rightarrow> game \<Rightarrow> game" where
  "ramp dt s =
     (let s1 = s\<lparr>difficulty := clamp (difficulty s + dt * 0.035) 0 1\<rparr>;
          s2 = s1\<lparr>speed := lerp 360 620 (difficulty s1)\<rparr>;
          s3 = s2\<lparr>score := score s2 + dt * (20 + speed s2 * 0.02)\<rparr>;
          s4 = s3\<lparr>p_invuln := max 0 (p_invuln s3 - dt)\<rparr>
      in smooth_hearts dt (\<lambda>i. hearts s4 ! i) s4)"

definition held_left :: "game \<Rightarrow> bool" where
  "held_left s \<longleftrightarrow> ''ArrowLeft'' \<in> keys s \<or> ''a'' \<in> keys s \<or> ''A'' \<in> keys s"

definition held_right :: "game \<Rightarrow> bool" where
  "held_right s \<longleftrightarrow> ''ArrowRight'' \<in> keys s \<or> ''d'' \<in> keys s \<or> ''D'' \<in> keys s"

definition held_jump :: "game \<Rightarrow> bool" where
  "held_jump s \<longleftrightarrow>
     '' '' \<in> keys s \<or> ''ArrowUp'' \<in> keys s \<or> ''w'' \<in> keys s \<or> ''W'' \<in> keys s"

definition held_down :: "game \<Rightarrow> bool" where
  "held_down s \<longleftrightarrow> ''ArrowDown'' \<in> keys s \<or> ''s'' \<in> keys s \<or> ''S'' \<in> keys s"

definition movement :: "real \<Rightarrow> game \<Rightarrow> game" where
  "movement dt s =
     (let accel = 2400;
          maxVx = 360;
          s1 = (if held_left s then s\<lparr>p_vx := p_vx s - accel * dt\<rparr> else s);
          s2 = (if held_right s1 then s1\<lparr>p_vx := p_vx s1 + accel * dt\<rparr> else s1);
          s3 = (if \<not> held_left s2 \<and> \<not> held_right s2
                then s2\<lparr>p_vx := p_vx s2 * (0.0006 powr dt)\<rparr> else s2)
      in s3\<lparr>p_vx := clamp (p_vx s3) (- maxVx) maxVx\<rparr>)"

text \<open>Jump buffer, coyote time and the fly-hold timer.\<close>

definition jump_timers :: "real \<Rightarrow> game \<Rightarrow> game" where
  "jump_timers dt s =
     (let s1 = (if held_jump s then s\<lparr>p_jumpBuffered := 0.12\<rparr>
                else s\<lparr>p_jumpBuffered := max 0 (p_jumpBuffered s - dt)\<rparr>);
          s2 = (if p_onGround s1 then s1\<lparr>p_coyote := 0.10\<rparr>
                else s1\<lparr>p_coyote := max 0 (p_coyote s1 - dt)\<rparr>)
      in if held_jump s2 then s2\<lparr>p_flyHold := p_flyHold s2 + dt\<rparr>
         else s2\<lparr>p_flyHold := 0\<rparr>)"

definition do_jump :: "game \<Rightarrow> game" where
  "do_jump s =
     (if p_jumpBuffered s > 0 \<and> p_coyote s > 0 then
        let s1 = s\<lparr>p_jumpBuffered := 0, p_coyote := 0, p_onGround := False, p_vy := jumpVel s\<rparr>
        in featherBurst (p_x s1 + p_w s1 * 0.6) (p_y s1 + p_h s1 * 0.5) s1
      else s)"

text \<open>The constant \<^verbatim>\<open>isFlying\<close> and the block it guards.\<close>

definition isFlying :: "game \<Rightarrow> bool" where
  "isFlying s \<longleftrightarrow> held_jump s \<and> \<not> p_onGround s \<and> p_flyHold s > 0.14 \<and> flyFuel s > 0"

definition flight :: "real \<Rightarrow> game \<Rightarrow> game" where
  "flight dt s =
     (if isFlying s then
        let s1 = s\<lparr>flyFuel := max 0 (flyFuel s - dt)\<rparr>;
            s2 = s1\<lparr>flyRefuelCd := flyRefuelDelay s1\<rparr>;
            targetVy = - 420;
            s3 = s2\<lparr>p_vy := lerp (p_vy s2) targetVy (1 - 0.001 powr dt)\<rparr>;
            (r, s4) = Math_random s3
        in if r < 0.35 then featherBurst (p_x s4 + p_w s4 * 0.45) (p_y s4 + p_h s4 * 0.75) s4
           else s4
      else s)"

definition cluck :: "real \<Rightarrow> game \<Rightarrow> game" where
  "cluck dt s =
     (let s1 = s\<lparr>p_cluckCd := max 0 (p_cluckCd s - dt)\<rparr>
      in if p_onGround s1 \<and> (held_right s1 \<or> held_left s1) \<and> p_cluckCd s1 \<le> 0 then
           (if held_right s1 then (let (v, s2) = rand 0.14 0.22 s1 in s2\<lparr>p_cluckCd := v\<rparr>)
            else (let (v, s2) = rand 0.26 0.40 s1 in s2\<lparr>p_cluckCd := v\<rparr>))
         else s1)"

text \<open>Drop through shelves.\<close>

definition drop_through :: "real \<Rightarrow> game \<Rightarrow> game" where
  "drop_through dt s =
     (let s1 = s\<lparr>p_drop := max 0 (p_drop s - dt)\<rparr>
      in if held_down s1 \<and> p_onGround s1 \<and> p_ground s1 \<noteq> None then
           s1\<lparr>p_drop := 0.35, p_ground := None, p_onGround := False,
              p_vy := max (p_vy s1) 120\<rparr>
         else s1)"

text \<open>Gravity, motion, the ceiling, the lane, and the scroll offset.\<close>

definition physics :: "real \<Rightarrow> real \<Rightarrow> game \<Rightarrow> game" where
  "physics dt H s =
     (let s1 = s\<lparr>p_vy := p_vy s + gravity s * dt\<rparr>;
          s2 = s1\<lparr>p_x := p_x s1 + p_vx s1 * dt\<rparr>;
          s3 = s2\<lparr>p_y := p_y s2 + p_vy s2 * dt\<rparr>;
          ceilY = Math_floor (H * 0.06);
          s4 = (if p_y s3 < ceilY then s3\<lparr>p_y := ceilY, p_vy := max (p_vy s3) 0\<rparr> else s3);
          s5 = s4\<lparr>p_x := clamp (p_x s4) (leftBound s4) (rightBound s4)\<rparr>
      in s5\<lparr>scroll := scroll s5 + speed s5 * dt\<rparr>)"

subsection \<open>The obstacle spawner\<close>

text \<open>The constants computed in the body of the spawner loop.\<close>

definition speedFactor :: "game \<Rightarrow> real" where
  "speedFactor s = lerp 1.00 0.86 (difficulty s)"

definition lastEndX :: "game \<Rightarrow> real option" where
  "lastEndX s =
     (if obstacles s = [] then None
      else Some (e_x (objs s (last (obstacles s))) + e_w (objs s (last (obstacles s)))))"

definition minSpacingPx :: "game \<Rightarrow> real" where
  "minSpacingPx s = lerp 240 180 (difficulty s)"

definition airTime :: "game \<Rightarrow> real" where
  "airTime s = (2 * \<bar>jumpVel s\<bar>) / gravity s"

definition jumpTravelPx :: "game \<Rightarrow> real" where
  "jumpTravelPx s = speed s * airTime s"

definition reactionPx :: "game \<Rightarrow> real" where
  "reactionPx s = lerp 220 140 (difficulty s)"

definition landingSpacingPx :: "game \<Rightarrow> real" where
  "landingSpacingPx s = max (p_w s + 200) (jumpTravelPx s + reactionPx s)"

definition reqPx :: "game \<Rightarrow> real" where
  "reqPx s = (if needLanding s then landingSpacingPx s else minSpacingPx s)"

text \<open>\<^verbatim>\<open>pick()\<close>; the index is within the table because \<^verbatim>\<open>Math.random()\<close> is below 1.\<close>

definition pick :: "game \<Rightarrow> (kind \<times> real \<times> real) \<times> game" where
  "pick s =
     (let (i, s1) = randi 0 (of_nat (length obstacleTypes) - 1) s
      in (obstacleTypes ! nat \<lfloor>i\<rfloor>, s1))"

definition makeWH :: "kind \<times> real \<times> real \<Rightarrow> game \<Rightarrow> (kind \<times> real \<times> real) \<times> game" where
  "makeWH t s =
     (let (knd, w, h) = t;
          (big, s1) = (if difficulty s > 0.55
                       then (let (r, sa) = Math_random s in (r < 0.12, sa))
                       else (False, s))
      in ((knd, (if big then Math_floor (w * 1.25) else w),
                (if big then Math_floor (h * 1.35) else h)), s1))"

text \<open>The branch of the loop body that starts no run and ends with \<^verbatim>\<open>continue\<close>.\<close>

definition no_run :: "game \<Rightarrow> game" where
  "no_run s =
     (let s1 = s\<lparr>needLanding := False\<rparr>;
          (v, s2) = rand 0.55 1.25 s1;
          s3 = s2\<lparr>sp_cd := sp_cd s2 + v * speedFactor s2\<rparr>;
          (r, s4) = Math_random s3
      in if r < 0.16 then (let (v2, s5) = rand 0.70 1.40 s4
                           in s5\<lparr>sp_cd := sp_cd s5 + v2 * speedFactor s5\<rparr>)
         else s4)"

text \<open>The position \<^verbatim>\<open>x1\<close> of the first obstacle of a chunk, from the draw \<open>v\<close> of
  \<^verbatim>\<open>rand(40, 140)\<close>.\<close>

definition chunk_x1 :: "real \<Rightarrow> real \<Rightarrow> game \<Rightarrow> real" where
  "chunk_x1 W v s =
     (let x1 = W + v
      in case lastEndX s of None \<Rightarrow> x1 | Some e \<Rightarrow> max x1 (e + reqPx s))"

text \<open>The optional second obstacle of a chunk; returns \<^verbatim>\<open>chunkEndX\<close>.\<close>

definition second_obstacle :: "real \<Rightarrow> nat \<Rightarrow> real \<Rightarrow> real \<Rightarrow> game \<Rightarrow> real \<times> game" where
  "second_obstacle W chunkSize x1 w1 s =
     (if chunkSize = 2 then
        let (pairGapPx, s1) = rand 40 80 s;
            x2 = x1 + w1 + pairGapPx;
            (t2, s2) = pick s1;
            ((knd2, w2, h2), s3) = makeWH t2 s2
        in (x2 + w2, spawnObstacle W w2 h2 knd2 (Some x2) s3)
      else (x1 + w1, s))"

text \<open>The corn that may follow a chunk.\<close>

definition chunk_corn :: "real \<Rightarrow> nat \<Rightarrow> real \<Rightarrow> game \<Rightarrow> game" where
  "chunk_corn W chunkSize chunkEndX s =
     (let (r1, s1) = Math_random s;
          s2 = (if r1 < (if chunkSize = 2 then 0.38 else 0.62)
                then (let (d, sa) = rand 90 240 s1 in spawnCorn W (Some (chunkEndX + d)) sa)
                else s1);
          (r2, s3) = Math_random s2
      in if r2 < lerp 0.02 0.05 (difficulty s3)
         then (let (d, sa) = rand 240 420 s3 in spawnBigCorn W (Some (chunkEndX + d)) sa)
         else s3)"

text \<open>The end of the loop body: one chunk less in the run, the landing flag, the next
  cooldown.\<close>

definition chunk_done :: "game \<Rightarrow> game" where
  "chunk_done s =
     (let s1 = s\<lparr>runChunksLeft := runChunksLeft s - 1\<rparr>
      in if runChunksLeft s1 > 0 then
           (let s2 = s1\<lparr>needLanding := True\<rparr>;
                (c, s3) = rand 0.20 0.40 s2
            in s3\<lparr>sp_cd := sp_cd s3 + c * speedFactor s3\<rparr>)
         else
           (let s2 = s1\<lparr>needLanding := False\<rparr>;
                (c, s3) = rand 0.55 1.10 s2
            in s3\<lparr>sp_cd := sp_cd s3 + c * speedFactor s3\<rparr>))"

text \<open>The loop body from the choice of \<^verbatim>\<open>chunkSize\<close> on: one chunk of one or two
  obstacles.\<close>

definition emit_chunk :: "real \<Rightarrow> game \<Rightarrow> game" where
  "emit_chunk W s =
     (let (rc, s1) = Math_random s;
          chunkSize = (if rc < lerp 0.30 0.55 (difficulty s1) then 2 else 1 :: nat);
          chunkSize = (if difficulty s1 < 0.10 then 1 else chunkSize);
          (v, s2) = rand 40 140 s1;
          x1 = chunk_x1 W v s2;
          (t1, s3) = pick s2;
          ((knd1, w1, h1), s4) = makeWH t1 s3;
          s5 = spawnObstacle W w1 h1 knd1 (Some x1) s4;
          (chunkEndX, s6) = second_obstacle W chunkSize x1 w1 s5
      in chunk_done (chunk_corn W chunkSize chunkEndX s6))"

text \<open>One pass through the body of the \<^verbatim>\<open>while\<close> loop.\<close>

definition spawner_body :: "real \<Rightarrow> game \<Rightarrow> game" where
  "spawner_body W s =
     (if runChunksLeft s \<le> 0 then
        let (r, s1) = Math_random s;
            startRun = r < lerp 0.50 0.72 (difficulty s1)
        in if \<not> startRun then no_run s1
           else
             let (n, s2) = randi 1 (2 + (if difficulty s1 > 0.55 then 1 else 0)) s1
             in emit_chunk W (s2\<lparr>runChunksLeft := n, needLanding := False\<rparr>)
      else emit_chunk W s)"

text \<open>The loop \<^verbatim>\<open>while (spawner.cd <= 0 && iters++ < 6)\<close>.\<close>

function spawner_loop :: "real \<Rightarrow> nat \<Rightarrow> game \<Rightarrow> game" where
  "spawner_loop W iters s =
     (if sp_cd s \<le> 0 \<and> iters < 6 then spawner_loop W (iters + 1) (spawner_body W s) else s)"
  by pat_completeness auto
termination
  by (relation "measure (\<lambda>(W, iters, s). 6 - iters)") auto

declare spawner_loop.simps [simp del]

definition obstacle_spawner :: "real \<Rightarrow> real \<Rightarrow> game \<Rightarrow> game" where
  "obstacle_spawner dt W s = spawner_loop W 0 (s\<lparr>sp_cd := sp_cd s - dt\<rparr>)"

subsection \<open>Shelves, stairs and eggs\<close>

text \<open>The end of the last obstacle or platform, 0 when the pool is empty.\<close>

definition last_end :: "ref list \<Rightarrow> game \<Rightarrow> real" where
  "last_end pool s = (if pool = [] then 0 else e_x (objs s (last pool)) + e_w (objs s (last pool)))"

text \<open>The plateau shelf of a segment and the corn on it.\<close>

definition plateau_shelf :: "real \<Rightarrow> real \<Rightarrow> game \<Rightarrow> game" where
  "plateau_shelf W x s =
     (let y = floorY s - plateauLift s;
          (w, s1) = randi 300 460 s;
          s2 = spawnPlatform W w y (Some x) Shelf s1;
          (r1, s3) = Math_random s2;
          s4 = (if r1 < 0.58 then spawnCorn W (Some (x + w * 0.5)) s3 else s3);
          (r2, s5) = Math_random s4
      in if r2 < 0.10 then spawnBigCorn W (Some (x + w * 0.65)) s5 else s5)"

text \<open>The block guarded by \<^verbatim>\<open>terrain.runLeft > 0\<close>.\<close>

definition terrain_segment :: "real \<Rightarrow> game \<Rightarrow> game" where
  "terrain_segment W s =
     (let lastEnd = max (last_end (obstacles s) s) (last_end (platforms s) s);
          (chainGap, s1) = (if terrain_runLeft s \<ge> 2 then rand 160 240 s else rand 280 420 s);
          (v, s2) = rand 180 280 s1;
          x = max (W + v) (lastEnd + chainGap);
          (toLevel, s3) =
             (if terrain_level s2 = 0 then (1, s2)
              else if terrain_runLeft s2 \<le> 1 then
                (let (r, sa) = Math_random s2 in (if r < 0.78 then 0 else 1, sa))
              else (1, s2));
          (x, s4) = (if toLevel \<noteq> terrain_level s3
                     then (let (e, sa) = spawnStairs W (terrain_level s3) toLevel x s3
                           in (e + 18, sa))
                     else (x, s3));
          s5 = (if toLevel = 1 then plateau_shelf W x s4 else s4);
          s6 = s5\<lparr>terrain_level := toLevel\<rparr>;
          s7 = s6\<lparr>terrain_runLeft := terrain_runLeft s6 - 1\<rparr>;
          (c, s8) = (if terrain_runLeft s7 > 0 then rand 0.55 0.95 s7 else rand 2.2 3.6 s7)
      in s8\<lparr>platformSpawner_cd := c * speedFactor s8\<rparr>)"

text \<open>The block guarded by \<^verbatim>\<open>terrain.runLeft <= 0\<close>: start a terrain run or wait.\<close>

definition terrain_start :: "game \<Rightarrow> game" where
  "terrain_start s =
     (if terrain_runLeft s \<le> 0 then
        let (r, s1) = Math_random s;
            start = r < lerp 0.42 0.62 (difficulty s1)
        in if \<not> start then
             (let (c, s2) = rand 1.3 2.8 s1 in s2\<lparr>platformSpawner_cd := c * speedFactor s2\<rparr>)
           else (let (n, s2) = randi 2 4 s1 in s2\<lparr>terrain_runLeft := n\<rparr>)
      else s)"

definition platform_spawner :: "real \<Rightarrow> real \<Rightarrow> game \<Rightarrow> game" where
  "platform_spawner dt W s =
     (let s1 = s\<lparr>platformSpawner_cd := platformSpawner_cd s - dt\<rparr>
      in if platformSpawner_cd s1 \<le> 0 \<and> needLanding s1 = False \<and> runChunksLeft s1 = 0 then
           let s2 = terrain_start s1
           in if terrain_runLeft s2 > 0 then terrain_segment W s2 else s2
         else s1)"

definition egg_spawner :: "real \<Rightarrow> real \<Rightarrow> game \<Rightarrow> game" where
  "egg_spawner dt W s =
     (let s1 = s\<lparr>eggSpawner_cd := eggSpawner_cd s - dt\<rparr>
      in if eggSpawner_cd s1 \<le> 0 \<and> needLanding s1 = False \<and> runChunksLeft s1 = 0 then
           let lastEnd = max (max (last_end (obstacles s1) s1) (last_end (platforms s1) s1))
                             (if eggs s1 = [] then 0 else g_x (last (eggs s1)) + g_r (last (eggs s1)));
               (a, s2) = rand 220 380 s1;
               (b, s3) = rand 360 560 s2;
               x = max (W + a) (lastEnd + b);
               (r, s4) = Math_random s3;
               s5 = (if r < 0.70 then spawnEgg W (Some x) s4 else s4);
               (c, s6) = rand 1.4 2.8 s5
           in s6\<lparr>eggSpawner_cd := c * speedFactor s6\<rparr>
         else s1)"

subsection \<open>Moving and pruning the entities\<close>

text \<open>\<^verbatim>\<open>for (const o of pool) o.x -= dx\<close>, on the objects of the store.\<close>

definition scroll_objs :: "ref list \<Rightarrow> real \<Rightarrow> game \<Rightarrow> game" where
  "scroll_objs pool dx s =
     fold (\<lambda>r sa. sa\<lparr>objs := (objs sa)(r := (objs sa r)\<lparr>e_x := e_x (objs sa r) - dx\<rparr>)\<rparr>) pool s"

text \<open>The loops \<^verbatim>\<open>while (pool.length && ...) pool.shift()\<close> drop a prefix of the pool.\<close>

definition update_obstacles :: "real \<Rightarrow> game \<Rightarrow> game" where
  "update_obstacles dt s =
     (let s1 = scroll_objs (obstacles s) (speed s * dt) s
      in s1\<lparr>obstacles := dropWhile (\<lambda>r. e_x (objs s1 r) + e_w (objs s1 r) < - 40) (obstacles s1)\<rparr>)"

definition update_platforms :: "real \<Rightarrow> game \<Rightarrow> game" where
  "update_platforms dt s =
     (let s1 = scroll_objs (platforms s) (speed s * dt) s
      in s1\<lparr>platforms := dropWhile (\<lambda>r. e_x (objs s1 r) + e_w (objs s1 r) < - 60) (platforms s1)\<rparr>)"

definition update_pickups :: "real \<Rightarrow> game \<Rightarrow> game" where
  "update_pickups dt s =
     s\<lparr>pickups := dropWhile (\<lambda>p. k_x p + k_r p < - 60)
         (map (\<lambda>p. p\<lparr>k_x := k_x p - speed s * dt, k_t := k_t p + dt\<rparr>) (pickups s))\<rparr>"

text \<open>The backwards loops with \<^verbatim>\<open>splice(i, 1)\<close> remove exactly the elements that meet
  the condition.\<close>

definition update_eggs :: "real \<Rightarrow> game \<Rightarrow> game" where
  "update_eggs dt s =
     s\<lparr>eggs := filter (\<lambda>e. \<not> (g_x e + g_r e < - 60) \<and> \<not> (g_smashed e \<and> g_smashT e > 0.60))
         (map (\<lambda>e. let e1 = e\<lparr>g_x := g_x e - speed s * dt, g_t := g_t e + dt\<rparr>
                    in if g_smashed e1 then e1\<lparr>g_smashT := g_smashT e1 + dt\<rparr> else e1)
              (eggs s))\<rparr>"

definition particle_step :: "real \<Rightarrow> particle \<Rightarrow> particle" where
  "particle_step dt q =
     (let q1 = q\<lparr>q_t := q_t q + dt\<rparr>;
          q2 = q1\<lparr>q_x := q_x q1 + q_vx q1 * dt\<rparr>;
          q3 = q2\<lparr>q_y := q_y q2 + q_vy q2 * dt\<rparr>;
          q4 = q3\<lparr>q_vy := q_vy q3 + (if q_kind q3 = Dust then 1200 else 1800) * dt\<rparr>
      in case q_rot q4 of None \<Rightarrow> q4 | Some rot \<Rightarrow> q4\<lparr>q_rot := Some (rot + q_vr q4 * dt)\<rparr>)"

definition update_particles :: "real \<Rightarrow> game \<Rightarrow> game" where
  "update_particles dt s =
     s\<lparr>particles := filter (\<lambda>q. \<not> q_t q \<ge> q_life q) (map (particle_step dt) (particles s))\<rparr>"

subsection \<open>Landing\<close>

text \<open>Keep the support while standing on a moving shelf.\<close>

definition sticky :: "game \<Rightarrow> game" where
  "sticky s =
     (case p_ground s of
        None \<Rightarrow> s
      | Some g \<Rightarrow>
          if p_onGround s then
            let gp = objs s g;
                overlap = (p_x s + p_w s) > e_x gp + 6 \<and> p_x s < (e_x gp + e_w gp - 6)
            in if \<not> overlap then s\<lparr>p_ground := None, p_onGround := False, p_vy := max (p_vy s) 80\<rparr>
               else s\<lparr>p_y := e_y gp - p_h s, p_vy := 0\<rparr>
          else s)"

text \<open>The landing loop, which the source writes out twice, for the platforms and for
  the obstacles. It returns whether the player landed.\<close>

fun land_scan :: "real \<Rightarrow> real \<Rightarrow> bool \<Rightarrow> ref list \<Rightarrow> game \<Rightarrow> bool \<times> game" where
  "land_scan prevBottom bottom wasOnGround [] s = (False, s)"
| "land_scan prevBottom bottom wasOnGround (r # rs) s =
     (let p = objs s r
      in if bottom < e_y p \<or> prevBottom > e_y p then land_scan prevBottom bottom wasOnGround rs s
         else if \<not> ((p_x s + p_w s - 6) > e_x p \<and> (p_x s + 6) < (e_x p + e_w p))
           then land_scan prevBottom bottom wasOnGround rs s
         else if prevBottom \<le> e_y p \<and> bottom \<ge> e_y p then
           (True,
            let s1 = s\<lparr>p_y := e_y p - p_h s, p_vy := 0, p_onGround := True, p_ground := Some r\<rparr>
            in if \<not> wasOnGround then dustPuff (p_x s1 + p_w s1 * 0.4) (e_y p + 2) s1 else s1)
         else land_scan prevBottom bottom wasOnGround rs s)"

definition platform_landing :: "real \<Rightarrow> bool \<Rightarrow> game \<Rightarrow> bool \<times> game" where
  "platform_landing prevY wasOnGround s =
     (if p_vy s \<ge> 0 \<and> p_drop s \<le> 0
      then land_scan (prevY + p_h s) (p_y s + p_h s) wasOnGround (platforms s) s
      else (False, s))"

definition obstacle_landing :: "bool \<Rightarrow> real \<Rightarrow> bool \<Rightarrow> game \<Rightarrow> bool \<times> game" where
  "obstacle_landing landed prevY wasOnGround s =
     (if \<not> landed \<and> p_vy s \<ge> 0
      then land_scan (prevY + p_h s) (p_y s + p_h s) wasOnGround (obstacles s) s
      else (landed, s))"

definition floor_landing :: "bool \<Rightarrow> bool \<Rightarrow> game \<Rightarrow> game" where
  "floor_landing landed wasOnGround s =
     (if \<not> landed then
        (if p_y s + p_h s \<ge> floorY s then
           let s1 = s\<lparr>p_y := floorY s - p_h s\<rparr>;
               s2 = (if \<not> wasOnGround \<and> p_vy s1 > 0
                     then dustPuff (p_x s1 + p_w s1 * 0.4) (floorY s1) s1 else s1)
           in s2\<lparr>p_vy := 0, p_onGround := True, p_ground := None\<rparr>
         else if p_ground s = None then s\<lparr>p_onGround := False\<rparr> else s)
      else s)"

text \<open>Flight refuel, and the run cycle.\<close>

definition refuel :: "real \<Rightarrow> game \<Rightarrow> game" where
  "refuel dt s =
     (if flyFuel s < flyFuelMax s then
        (if p_onGround s then
           let s1 = s\<lparr>flyRefuelCd := max 0 (flyRefuelCd s - dt)\<rparr>
           in if flyRefuelCd s1 \<le> 0 then s1\<lparr>flyFuel := flyFuelMax s1\<rparr> else s1
         else s)
      else s)"

definition anim_step :: "real \<Rightarrow> game \<Rightarrow> game" where
  "anim_step dt s =
     (let runSpeed = (if p_onGround s then \<bar>p_vx s\<bar> / 220 + 1.0 else 0.4)
      in s\<lparr>p_anim := p_anim s + dt * runSpeed\<rparr>)"

subsection \<open>Collisions\<close>

text \<open>The inner hitbox \<open>(x, y, w, h)\<close>, computed once before the three loops.\<close>

type_synonym box = "real \<times> real \<times> real \<times> real"

definition hitbox :: "game \<Rightarrow> box" where
  "hitbox s = (p_x s + 8, p_y s + 8, p_w s - 16, p_h s - 10)"

definition hits :: "box \<Rightarrow> real \<Rightarrow> real \<Rightarrow> real \<Rightarrow> real \<Rightarrow> bool" where
  "hits hb bx by bw bh = (case hb of (hx, hy, hw, hh) \<Rightarrow> aabb hx hy hw hh bx by bw bh)"

text \<open>The obstacle loop: \<^verbatim>\<open>continue\<close> goes on with the rest of the pool, \<^verbatim>\<open>break\<close> after
  \<^verbatim>\<open>hurt(o)\<close> ends it.\<close>

fun damage_scan :: "box \<Rightarrow> ref list \<Rightarrow> game \<Rightarrow> game" where
  "damage_scan hb [] s = s"
| "damage_scan hb (r # rs) s =
     (let ob = objs s r
      in if hits hb (e_x ob) (e_y ob) (e_w ob) (e_h ob) then
           (if p_ground s = Some r \<and> p_onGround s then damage_scan hb rs s
            else
              let aboveTop = (fst (snd hb) + snd (snd (snd hb))) \<le> (e_y ob + 4)
              in if aboveTop then damage_scan hb rs s
                 else
                   let fromFront = (p_x s + p_w s * 0.5) \<le> (e_x ob + e_w ob * 0.5)
                   in if \<not> fromFront then damage_scan hb rs s
                      else hurt r 12 s)
         else damage_scan hb rs s)"

definition damage_pass :: "box \<Rightarrow> game \<Rightarrow> game" where
  "damage_pass hb s = damage_scan hb (obstacles s) s"

text \<open>The test an obstacle has to pass in the damage loop before \<^verbatim>\<open>hurt(o)\<close> is called.\<close>

definition front_hit :: "box \<Rightarrow> ref \<Rightarrow> game \<Rightarrow> bool" where
  "front_hit hb r s \<longleftrightarrow>
     hits hb (e_x (objs s r)) (e_y (objs s r)) (e_w (objs s r)) (e_h (objs s r))
     \<and> \<not> (p_ground s = Some r \<and> p_onGround s)
     \<and> \<not> (fst (snd hb) + snd (snd (snd hb)) \<le> e_y (objs s r) + 4)
     \<and> p_x s + p_w s * 0.5 \<le> e_x (objs s r) + e_w (objs s r) * 0.5"

text \<open>\<^verbatim>\<open>p.value || 1\<close>: the value, or 1 when the value is 0.\<close>

definition value_or_1 :: "pickup \<Rightarrow> real" where
  "value_or_1 p = (if k_value p = 0 then 1 else k_value p)"

text \<open>The body of the pickup loop, for one pickup.\<close>

definition collect :: "box \<Rightarrow> pickup \<Rightarrow> game \<Rightarrow> pickup \<times> game" where
  "collect hb p s =
     (if k_taken p then (p, s)
      else if hits hb (k_x p - k_r p) (k_y p - k_r p) (k_r p * 2) (k_r p * 2) then
        let s1 = s\<lparr>corn := corn s + value_or_1 p\<rparr>;
            s2 = s1\<lparr>score := score s1 + 60 * value_or_1 p\<rparr>
        in (p\<lparr>k_taken := True\<rparr>, featherBurst (k_x p) (k_y p) s2)
      else (p, s))"

fun pickup_scan :: "box \<Rightarrow> pickup list \<Rightarrow> game \<Rightarrow> pickup list \<times> game" where
  "pickup_scan hb [] s = ([], s)"
| "pickup_scan hb (p # ps) s =
     (let (p1, s1) = collect hb p s;
          (ps1, s2) = pickup_scan hb ps s1
      in (p1 # ps1, s2))"

definition pickup_pass :: "box \<Rightarrow> game \<Rightarrow> game" where
  "pickup_pass hb s = (let (ps, s1) = pickup_scan hb (pickups s) s in s1\<lparr>pickups := ps\<rparr>)"

text \<open>The body of the egg loop, for one egg.\<close>

definition smash :: "box \<Rightarrow> egg \<Rightarrow> game \<Rightarrow> egg \<times> game" where
  "smash hb e s =
     (if g_smashed e then (e, s)
      else if hits hb (g_x e - g_r e) (g_y e - g_r e) (g_r e * 2) (g_r e * 2) then
        let s1 = s\<lparr>corn := max 0 (corn s - 1)\<rparr>
        in (e\<lparr>g_smashed := True, g_smashT := 0\<rparr>, yolkBurst (g_x e) (g_y e) s1)
      else (e, s))"

fun egg_scan :: "box \<Rightarrow> egg list \<Rightarrow> game \<Rightarrow> egg list \<times> game" where
  "egg_scan hb [] s = ([], s)"
| "egg_scan hb (e # es) s =
     (let (e1, s1) = smash hb e s;
          (es1, s2) = egg_scan hb es s1
      in (e1 # es1, s2))"

definition egg_pass :: "box \<Rightarrow> game \<Rightarrow> game" where
  "egg_pass hb s = (let (es, s1) = egg_scan hb (eggs s) s in s1\<lparr>eggs := es\<rparr>)"

subsection \<open>The tick as a whole, the main loop and the keyboard\<close>

definition first_placement :: "real \<Rightarrow> game \<Rightarrow> game" where
  "first_placement W s =
     (if st_t s < 0.001
      then s\<lparr>p_x := leftBound s + Math_floor (W * 0.16), p_y := floorY s - p_h s\<rparr>
      else s)"

text \<open>The steps of a playing tick up to the point where \<^verbatim>\<open>wasOnGround\<close> and \<^verbatim>\<open>prevY\<close>
  are read.\<close>

definition control :: "real \<Rightarrow> game \<Rightarrow> game" where
  "control dt s =
     drop_through dt (cluck dt (flight dt (do_jump (jump_timers dt (movement dt (ramp dt s))))))"

definition spawners :: "real \<Rightarrow> real \<Rightarrow> game \<Rightarrow> game" where
  "spawners dt W s = egg_spawner dt W (platform_spawner dt W (obstacle_spawner dt W s))"

definition move_entities :: "real \<Rightarrow> game \<Rightarrow> game" where
  "move_entities dt s =
     update_particles dt (update_eggs dt (update_pickups dt (update_platforms dt
       (update_obstacles dt s))))"

text \<open>The landing passes, in their order.\<close>

definition landing :: "real \<Rightarrow> bool \<Rightarrow> game \<Rightarrow> game" where
  "landing prevY wasOnGround s =
     (let s1 = sticky s;
          (landed, s2) = platform_landing prevY wasOnGround s1;
          (landed, s3) = obstacle_landing landed prevY wasOnGround s2
      in floor_landing landed wasOnGround s3)"

text \<open>The three collision loops, all against the hitbox computed before the first.\<close>

definition collisions :: "game \<Rightarrow> game" where
  "collisions s = (let hb = hitbox s in egg_pass hb (pickup_pass hb (damage_pass hb s)))"

definition update :: "real \<Rightarrow> real \<Rightarrow> real \<Rightarrow> game \<Rightarrow> game" where
  "update dt W H s =
     (let s1 = world_dims W H (s\<lparr>st_dt := dt, st_t := st_t s + dt\<rparr>)
      in if mode s1 \<noteq> Playing then idle_update dt s1
         else
           let s2 = control dt s1;
               wasOnGround = p_onGround s2;
               prevY = p_y s2;
               s3 = move_entities dt (spawners dt W (physics dt H s2));
               s4 = anim_step dt (refuel dt (landing prevY wasOnGround s3));
               s5 = collisions s4;
               s6 = s5\<lparr>shake := max 0 (shake s5 - dt)\<rparr>;
               s7 = first_placement W s6
           in if \<not> wasOnGround \<and> p_y s7 > H + 80 then gameOver s7 else s7)"




text \<open>What \<^verbatim>\<open>render()\<close> writes: the place of the player on the title screen.\<close>

definition render :: "real \<Rightarrow> real \<Rightarrow> game \<Rightarrow> game" where
  "render W H s =
     (if mode s = Title
      then s\<lparr>p_x := Math_floor (W * 0.22), p_y := Math_floor (H * 0.78) - p_h s\<rparr>
      else s)"

text \<open>\<^verbatim>\<open>frame()\<close> at the time \<open>tnow\<close> in milliseconds.\<close>

definition frame :: "real \<Rightarrow> real \<Rightarrow> real \<Rightarrow> game \<Rightarrow> game" where
  "frame tnow W H s =
     (let dtReal = clamp ((tnow - last_ms s) / 1000) 0 (1 / 20);
          s1 = s\<lparr>last_ms := tnow\<rparr>;
          dt = (if mode s1 = Playing then clamp (dtReal * timeScale s1) 0 (1 / 15) else dtReal)
      in render W H (update dt W H s1))"

text \<open>\<^verbatim>\<open>keyDown\<close> for the key \<open>k\<close>; \<open>isTyping\<close> says that the event comes from a text
  field.\<close>

definition keyDown :: "string \<Rightarrow> bool \<Rightarrow> real \<Rightarrow> real \<Rightarrow> game \<Rightarrow> game" where
  "keyDown k isTyping W H s =
     (let s1 = s\<lparr>keys := insert k (keys s)\<rparr>;
          s2 = (if k = ''Enter'' \<and> (mode s1 = Title \<or> mode s1 = Gameover)
                then startGame W H s1 else s1);
          s3 = (if \<not> isTyping \<and> (k = ''1'' \<or> k = ''2'' \<or> k = ''3'') then
                  (if k = ''1'' then setTimeMode Slow s2
                   else if k = ''2'' then setTimeMode Normal s2
                   else setTimeMode Fast s2)
                else s2);
          s4 = (if k = ''p'' \<or> k = ''P'' then
                  (if mode s3 = Playing then s3\<lparr>mode := Paused, keys := {}\<rparr>
                   else if mode s3 = Paused then s3\<lparr>mode := Playing, keys := {}\<rparr>
                   else s3)
                else s3)
      in if k = ''r'' \<or> k = ''R'' then
           (if mode s4 \<noteq> Playing then startGame W H s4 else resetRun W H s4)
         else s4)"

definition keyUp :: "string \<Rightarrow> game \<Rightarrow> game" where
  "keyUp k s = s\<lparr>keys := keys s - {k}\<rparr>"

text \<open>The state when the script has run: the literals of the source, the best score
  \<open>b\<close> read from storage, the time \<open>t0\<close> of \<^verbatim>\<open>last = nowMs()\<close>, and the random source.\<close>

definition init_game :: "real \<Rightarrow> real \<Rightarrow> (nat \<Rightarrow> real) \<Rightarrow> game" where
  "init_game b t0 rnd =
     \<lparr>mode = Title, st_t = 0, st_dt = 0, timeScale = 1.0, timeMode = Normal, speed = 360,
      difficulty = 0, score = 0, best = b, corn = 0, heartsMax = 2, heartIndex = 0,
      hearts = [100, 100], heartsSmooth = [100, 100], flyFuelMax = 5.0, flyFuel = 5.0,
      flyRefuelDelay = 0.75, flyRefuelCd = 0, shake = 0, hintBlink = 0,
      p_x = 220, p_y = 340, p_vx = 0, p_vy = 0, p_w = 54, p_h = 44, p_onGround = True,
      p_jumpBuffered = 0, p_coyote = 0, p_anim = 0, p_invuln = 0, p_ground = None,
      p_drop = 0, p_cluckCd = 0, p_flyHold = 0,
      floorY = 0, leftBound = 0, rightBound = 0, gravity = 2400, jumpVel = - 760, scroll = 0,
      roomHue = 22, popHue = 160, popHue2 = 320, plateauLift = 96,
      sp_cd = 0.35, runChunksLeft = 0, needLanding = False, platformSpawner_cd = 1.4,
      eggSpawner_cd = 1.2, terrain_level = 0, terrain_runLeft = 0,
      objs = (\<lambda>r. \<lparr>e_x = 0, e_y = 0, e_w = 0, e_h = 0, e_kind = Block, e_bob = 0\<rparr>),
      next_ref = 0, obstacles = [], platforms = [], pickups = [], eggs = [], particles = [],
      keys = {}, last_ms = t0, random = rnd, rng = 0\<rparr>"

text \<open>The states the program can be in: the events are the frames of the main loop and
  the keyboard events, in any order and with any arguments.\<close>

inductive reachable :: "game \<Rightarrow> bool" where
  r_init: "random_ok (init_game b t0 rnd) \<Longrightarrow> reachable (init_game b t0 rnd)"
| r_frame: "reachable s \<Longrightarrow> reachable (frame tnow W H s)"
| r_keyDown: "reachable s \<Longrightarrow> reachable (keyDown k isTyping W H s)"
| r_keyUp: "reachable s \<Longrightarrow> reachable (keyUp k s)"

subsection \<open>Bounds on health, hearts and corn\<close>

text \<open>The bounds themselves.\<close>

definition bounds :: "game \<Rightarrow> bool" where
  "bounds s \<longleftrightarrow>
     (\<forall>h \<in> set (hearts s). 0 \<le> h \<and> h \<le> 100) \<and> 0 \<le> corn s \<and> heartIndex s < heartsMax s"

text \<open>The fields that the bounds speak about.\<close>

definition vitals :: "game \<Rightarrow> real list \<times> nat \<times> nat \<times> real" where
  "vitals s = (hearts s, heartIndex s, heartsMax s, corn s)"

text \<open>Every pickup in the pool is worth 1 or 3, as \<^verbatim>\<open>spawnCorn\<close> and \<^verbatim>\<open>spawnBigCorn\<close>
  make them.\<close>

definition pickups_ok :: "game \<Rightarrow> bool" where
  "pickups_ok s \<longleftrightarrow> (\<forall>p \<in> set (pickups s). k_value p = 1 \<or> k_value p = 3)"

text \<open>The bounds together with what keeps them: the array of hearts has one entry for
  each heart, and the pickups are well formed.\<close>

definition run_inv :: "game \<Rightarrow> bool" where
  "run_inv s \<longleftrightarrow> bounds s \<and> length (hearts s) = heartsMax s \<and> pickups_ok s"

text \<open>The fields that are set when the script starts and never written again, and the
  length of the array of displayed hearts.\<close>

definition stable ::
  "game \<Rightarrow> nat \<times> nat \<times> (nat \<Rightarrow> real) \<times> real \<times> real \<times> real \<times> real \<times> real \<times> real \<times> real" where
  "stable s = (heartsMax s, length (heartsSmooth s), random s, p_w s, p_h s, gravity s,
               jumpVel s, plateauLift s, flyFuelMax s, flyRefuelDelay s)"

subsection \<open>Example states\<close>

text \<open>A run that has just started on a canvas of 800 by 600, with a random source that
  always returns one half.\<close>

definition ex_run :: game where
  "ex_run = (init_game 0 0 (\<lambda>n. 1 / 2))
     \<lparr>mode := Playing, p_x := 192, p_y := 424, floorY := 468, leftBound := 64, rightBound := 496\<rparr>"

text \<open>An obstacle of kind block standing on the floor of \<open>ex_run\<close> at \<open>x\<close>.\<close>

definition ex_block :: "real \<Rightarrow> solid" where
  "ex_block x = \<lparr>e_x = x, e_y = 434, e_w = 46, e_h = 34, e_kind = Block, e_bob = 0\<rparr>"

text \<open>The run with one block just ahead of the player, and the same with the first
  heart down to 4.\<close>

definition ex_front :: game where
  "ex_front = ex_run\<lparr>objs := (\<lambda>r. ex_block 200), next_ref := 1, obstacles := [0]\<rparr>"

definition ex_low :: game where
  "ex_low = ex_front\<lparr>hearts := [4, 100]\<rparr>"


text \<open>The player of \<open>ex_front\<close> standing on the block, with the down key held.\<close>

definition ex_on_block :: game where
  "ex_on_block = ex_front\<lparr>p_x := 196, p_y := 390, p_ground := Some 0, keys := {''ArrowDown''}\<rparr>"

text \<open>The player of \<open>ex_run\<close> standing on a shelf, with the down key held.\<close>

definition ex_on_shelf :: game where
  "ex_on_shelf = ex_run
     \<lparr>p_y := 328, p_ground := Some 0,
      objs := (\<lambda>r. \<lparr>e_x = 100, e_y = 372, e_w = 300, e_h = 18, e_kind = Shelf, e_bob = 0\<rparr>),
      next_ref := 1, platforms := [0], keys := {''ArrowDown''}\<rparr>"


text \<open>A run whose last obstacle is far ahead, with a random source that always returns
  one quarter: once between two runs, once inside a run that has a chunk left.\<close>

definition ex_between :: game where
  "ex_between = ex_run\<lparr>objs := (\<lambda>r. ex_block 1000), next_ref := 1, obstacles := [0],
                        random := (\<lambda>n. 1 / 4)\<rparr>"

definition ex_within :: game where
  "ex_within = ex_between\<lparr>runChunksLeft := 1, needLanding := True\<rparr>"

section \<open>Properties\<close>

subsection \<open>Names\<close>

lemma is_space_20: "is_space 0x20" by (simp add: is_space_def)

lemma replace_ws_head: "replace_ws True s = [] \<or> \<not> is_space (hd (replace_ws True s))"
  by (induction s) (auto)

lemma single_spaced_Cons:
  "single_spaced (c # xs) \<longleftrightarrow>
     (if is_space c then c = 0x20 \<and> (xs = [] \<or> \<not> is_space (hd xs)) else True) \<and> single_spaced xs"
  by (cases xs) auto

lemma single_spaced_replace_ws: "single_spaced (replace_ws b s)"
proof (induction s arbitrary: b)
  case Nil show ?case by simp
next
  case (Cons c cs)
  show ?case
    using Cons.IH[of True] Cons.IH[of False] replace_ws_head[of cs]
    by (auto simp: single_spaced_Cons is_space_20)
qed

lemma single_spaced_dropWhile: "single_spaced s \<Longrightarrow> single_spaced (dropWhile P s)"
  by (induction s) (auto simp: single_spaced_Cons)

lemma single_spaced_take: "single_spaced s \<Longrightarrow> single_spaced (take n s)"
proof (induction s arbitrary: n)
  case Nil show ?case by simp
next
  case (Cons c cs)
  show ?case
  proof (cases n)
    case 0 then show ?thesis by simp
  next
    case (Suc m)
    have "single_spaced (take m cs)" using Cons by (simp add: single_spaced_Cons)
    moreover have "take m cs = [] \<or> hd (take m cs) = hd cs" by (cases m; cases cs) auto
    ultimately show ?thesis using Cons.prems Suc
      by (auto simp: single_spaced_Cons)
  qed
qed

lemma single_spaced_append:
  "single_spaced (xs @ [c]) \<Longrightarrow> single_spaced xs"
  by (induction xs rule: single_spaced.induct) (auto split: if_splits)

lemma single_spaced_butlast_drop:
  "single_spaced s \<Longrightarrow> single_spaced (rev (dropWhile P (rev s)))"
proof (induction s rule: rev_induct)
  case Nil show ?case by simp
next
  case (snoc c xs)
  then show ?case using single_spaced_append[of xs c] by auto
qed

lemma single_spaced_trim: "single_spaced s \<Longrightarrow> single_spaced (trim s)"
  unfolding trim_def by (intro single_spaced_butlast_drop single_spaced_dropWhile)

lemma rev_dropWhile_rev_hd:
  "rev (dropWhile P (rev s)) \<noteq> [] \<Longrightarrow> hd (rev (dropWhile P (rev s))) = hd s"
proof (induction s rule: rev_induct)
  case Nil then show ?case by simp
next
  case (snoc c xs)
  then show ?case by (cases xs) (auto split: if_splits)
qed

lemma trim_hd: "trim s \<noteq> [] \<Longrightarrow> \<not> is_space (hd (trim s))"
proof -
  assume a: "trim s \<noteq> []"
  then have "hd (trim s) = hd (dropWhile is_space s)"
    unfolding trim_def by (rule rev_dropWhile_rev_hd)
  moreover have "dropWhile is_space s \<noteq> []"
  proof
    assume "dropWhile is_space s = []"
    then have "trim s = []" by (simp add: trim_def del: dropWhile_eq_Nil_conv)
    with a show False by simp
  qed
  ultimately show ?thesis using hd_dropWhile[of is_space s] by simp
qed

lemma all_dropWhile: "(\<forall>x \<in> set (dropWhile P s). P x) \<longleftrightarrow> (\<forall>x \<in> set s. P x)"
  by (induction s) auto

lemma trim_Nil_iff: "trim s = [] \<longleftrightarrow> (\<forall>c \<in> set s. is_space c)"
  unfolding trim_def by (simp add: dropWhile_eq_Nil_conv all_dropWhile)

lemma set_replace_ws_nonspace:
  "{c \<in> set (replace_ws b s). \<not> is_space c} = {c \<in> set s. \<not> is_space c}"
  by (induction s arbitrary: b) (auto simp: is_space_20)

lemma filter_replace_ws:
  "filter (\<lambda>c. \<not> is_space c) (replace_ws b s) = filter (\<lambda>c. \<not> is_space c) s"
  by (induction s arbitrary: b) (auto simp: is_space_20)

lemma replace_ws_all_space:
  "(\<forall>c \<in> set (replace_ws b s). is_space c) \<longleftrightarrow> (\<forall>c \<in> set s. is_space c)"
  using set_replace_ws_nonspace[of b s] by blast

lemma Nugget_props: "Nugget \<noteq> [] \<and> length Nugget \<le> 14 \<and> single_spaced Nugget \<and> \<not> is_space (hd Nugget)"
  by (simp add: Nugget_def is_space_def)

text \<open>
  C10. \<^verbatim>\<open>normalizeName\<close> returns, for a string or \<^verbatim>\<open>null\<close>/\<^verbatim>\<open>undefined\<close>, a non-empty string
  of at most 14 code units. The result is single-spaced and does not start with white
  space; it is the fallback \<^verbatim>\<open>'Nugget'\<close> exactly when the input holds nothing but white
  space, and otherwise the first 14 code units of the trimmed string whose white-space
  runs were collapsed.
\<close>

theorem normalizeName_ok:
  "normalizeName v \<noteq> [] \<and> length (normalizeName v) \<le> 14
   \<and> single_spaced (normalizeName v) \<and> \<not> is_space (hd (normalizeName v))
   \<and> normalizeName v =
       (if (\<forall>c \<in> set (str_of v). is_space c) then Nugget
        else take 14 (trim (replace_ws False (str_of v))))"
proof -
  let ?s = "trim (replace_ws False (str_of v))"
  have def: "normalizeName v = (if take 14 ?s \<noteq> [] then take 14 ?s else Nugget)"
    by (simp add: normalizeName_def str_of_def Let_def)
  have ss: "single_spaced (take 14 ?s)"
    by (intro single_spaced_take single_spaced_trim single_spaced_replace_ws)
  have emp: "take 14 ?s = [] \<longleftrightarrow> (\<forall>c \<in> set (str_of v). is_space c)"
    by (simp add: trim_Nil_iff replace_ws_all_space)
  have hd: "take 14 ?s \<noteq> [] \<Longrightarrow> \<not> is_space (hd (take 14 ?s))"
    using trim_hd[of "replace_ws False (str_of v)"] by (cases ?s) auto
  show ?thesis
    using def ss emp hd Nugget_props by auto
qed

theorem normalizeName_ok_witness:
  "\<not> (\<forall>c \<in> set (str_of (Some [0x20, 0x20, 0x43, 0x9, 0xA, 0x3000, 0x44, 0x20])). is_space c)
   \<and> normalizeName (Some [0x20, 0x20, 0x43, 0x9, 0xA, 0x3000, 0x44, 0x20]) = [0x43, 0x20, 0x44]
   \<and> single_spaced [0x43, 0x20, 0x44]"
  using normalizeName_ok [of "Some [0x20, 0x20, 0x43, 0x9, 0xA, 0x3000, 0x44, 0x20]"]
  by (simp add: str_of_def trim_def is_space_def)

subsection \<open>Random draws and particle bursts change nothing else\<close>

lemma Math_random_eq: "Math_random s = (random s (rng s), s\<lparr>rng := rng s + 1\<rparr>)"
  by (simp add: Math_random_def)

lemma rand_eq: "rand a b s = (a + random s (rng s) * (b - a), s\<lparr>rng := rng s + 1\<rparr>)"
  by (simp add: rand_def Math_random_def)

lemma randi_eq: "randi a b s = (Math_floor (a + random s (rng s) * (b + 1 - a)), s\<lparr>rng := rng s + 1\<rparr>)"
  by (simp add: randi_def rand_eq)

lemma feather_particle_eq:
  "\<exists>q. feather_particle x y s = s\<lparr>particles := particles s @ [q], rng := rng s + 5\<rparr>"
  by (rule exI[of _ "last (particles (feather_particle x y s))"])
     (simp add: feather_particle_def rand_eq)

lemma dust_particle_eq:
  "\<exists>q. dust_particle x y s = s\<lparr>particles := particles s @ [q], rng := rng s + 5\<rparr>"
  by (rule exI[of _ "last (particles (dust_particle x y s))"])
     (simp add: dust_particle_def rand_eq)

lemma yolk_particle_eq:
  "\<exists>q. yolk_particle x y s = s\<lparr>particles := particles s @ [q], rng := rng s + 3\<rparr>"
  by (rule exI[of _ "last (particles (yolk_particle x y s))"])
     (simp add: yolk_particle_def rand_eq)

lemma funpow_fx:
  assumes "\<And>s. \<exists>q. f s = s\<lparr>particles := particles s @ [q], rng := rng s + c\<rparr>"
  shows "\<exists>qs. (f ^^ k) s = s\<lparr>particles := particles s @ qs, rng := rng s + c * k\<rparr>
           \<and> length qs = k"
proof (induction k)
  case 0
  show ?case by (rule exI[of _ "[]"]) simp
next
  case (Suc k)
  then obtain qs where a: "(f ^^ k) s = s\<lparr>particles := particles s @ qs, rng := rng s + c * k\<rparr>"
    and l: "length qs = k"
    by blast
  obtain q where b: "f ((f ^^ k) s) = ((f ^^ k) s)\<lparr>particles := particles ((f ^^ k) s) @ [q],
      rng := rng ((f ^^ k) s) + c\<rparr>"
    using assms[of "(f ^^ k) s"] by blast
  have "(f ^^ Suc k) s = s\<lparr>particles := particles s @ (qs @ [q]), rng := rng s + c * Suc k\<rparr>"
    using a b by (simp add: add.commute add.left_commute)
  moreover have "length (qs @ [q]) = Suc k" using l by simp
  ultimately show ?case by blast
qed

lemma featherBurst_eq:
  "\<exists>qs n. featherBurst x y s = s\<lparr>particles := particles s @ qs, rng := n\<rparr>
     \<and> length qs = nat \<lceil>fst (randi 7 11 s)\<rceil>"
proof -
  obtain qs where "(feather_particle x y ^^ nat \<lceil>fst (randi 7 11 s)\<rceil>) (snd (randi 7 11 s))
     = (snd (randi 7 11 s))\<lparr>particles := particles (snd (randi 7 11 s)) @ qs,
         rng := rng (snd (randi 7 11 s)) + 5 * nat \<lceil>fst (randi 7 11 s)\<rceil>\<rparr>"
    and l: "length qs = nat \<lceil>fst (randi 7 11 s)\<rceil>"
    using funpow_fx[of "feather_particle x y" 5, OF feather_particle_eq] by blast
  then have "featherBurst x y s = s\<lparr>particles := particles s @ qs,
      rng := rng s + 1 + 5 * nat \<lceil>fst (randi 7 11 s)\<rceil>\<rparr>"
    by (simp add: featherBurst_def split_def randi_eq)
  with l show ?thesis by blast
qed

lemma dustPuff_eq:
  "\<exists>qs n. dustPuff x y s = s\<lparr>particles := particles s @ qs, rng := n\<rparr>
     \<and> length qs = nat \<lceil>fst (randi 6 10 s)\<rceil>"
proof -
  obtain qs where "(dust_particle x y ^^ nat \<lceil>fst (randi 6 10 s)\<rceil>) (snd (randi 6 10 s))
     = (snd (randi 6 10 s))\<lparr>particles := particles (snd (randi 6 10 s)) @ qs,
         rng := rng (snd (randi 6 10 s)) + 5 * nat \<lceil>fst (randi 6 10 s)\<rceil>\<rparr>"
    and l: "length qs = nat \<lceil>fst (randi 6 10 s)\<rceil>"
    using funpow_fx[of "dust_particle x y" 5, OF dust_particle_eq] by blast
  then have "dustPuff x y s = s\<lparr>particles := particles s @ qs,
      rng := rng s + 1 + 5 * nat \<lceil>fst (randi 6 10 s)\<rceil>\<rparr>"
    by (simp add: dustPuff_def split_def randi_eq)
  with l show ?thesis by blast
qed

lemma yolkBurst_eq:
  "\<exists>qs n. yolkBurst x y s = s\<lparr>particles := particles s @ qs, rng := n\<rparr>
     \<and> length qs = nat \<lceil>fst (randi 10 16 s)\<rceil>"
proof -
  obtain qs where "(yolk_particle x y ^^ nat \<lceil>fst (randi 10 16 s)\<rceil>) (snd (randi 10 16 s))
     = (snd (randi 10 16 s))\<lparr>particles := particles (snd (randi 10 16 s)) @ qs,
         rng := rng (snd (randi 10 16 s)) + 3 * nat \<lceil>fst (randi 10 16 s)\<rceil>\<rparr>"
    and l: "length qs = nat \<lceil>fst (randi 10 16 s)\<rceil>"
    using funpow_fx[of "yolk_particle x y" 3, OF yolk_particle_eq] by blast
  then have "yolkBurst x y s = s\<lparr>particles := particles s @ qs,
      rng := rng s + 1 + 3 * nat \<lceil>fst (randi 10 16 s)\<rceil>\<rparr>"
    by (simp add: yolkBurst_def split_def randi_eq)
  with l show ?thesis by blast
qed

text \<open>A burst leaves every field but the particles and the random counter.\<close>

lemma featherBurst_fields:
  "mode (featherBurst x y s) = mode s"
  "st_t (featherBurst x y s) = st_t s"
  "st_dt (featherBurst x y s) = st_dt s"
  "timeScale (featherBurst x y s) = timeScale s"
  "timeMode (featherBurst x y s) = timeMode s"
  "speed (featherBurst x y s) = speed s"
  "difficulty (featherBurst x y s) = difficulty s"
  "score (featherBurst x y s) = score s"
  "best (featherBurst x y s) = best s"
  "corn (featherBurst x y s) = corn s"
  "heartsMax (featherBurst x y s) = heartsMax s"
  "heartIndex (featherBurst x y s) = heartIndex s"
  "hearts (featherBurst x y s) = hearts s"
  "heartsSmooth (featherBurst x y s) = heartsSmooth s"
  "flyFuelMax (featherBurst x y s) = flyFuelMax s"
  "flyFuel (featherBurst x y s) = flyFuel s"
  "flyRefuelDelay (featherBurst x y s) = flyRefuelDelay s"
  "flyRefuelCd (featherBurst x y s) = flyRefuelCd s"
  "shake (featherBurst x y s) = shake s"
  "hintBlink (featherBurst x y s) = hintBlink s"
  "p_x (featherBurst x y s) = p_x s"
  "p_y (featherBurst x y s) = p_y s"
  "p_vx (featherBurst x y s) = p_vx s"
  "p_vy (featherBurst x y s) = p_vy s"
  "p_w (featherBurst x y s) = p_w s"
  "p_h (featherBurst x y s) = p_h s"
  "p_onGround (featherBurst x y s) = p_onGround s"
  "p_jumpBuffered (featherBurst x y s) = p_jumpBuffered s"
  "p_coyote (featherBurst x y s) = p_coyote s"
  "p_anim (featherBurst x y s) = p_anim s"
  "p_invuln (featherBurst x y s) = p_invuln s"
  "p_ground (featherBurst x y s) = p_ground s"
  "p_drop (featherBurst x y s) = p_drop s"
  "p_cluckCd (featherBurst x y s) = p_cluckCd s"
  "p_flyHold (featherBurst x y s) = p_flyHold s"
  "floorY (featherBurst x y s) = floorY s"
  "leftBound (featherBurst x y s) = leftBound s"
  "rightBound (featherBurst x y s) = rightBound s"
  "gravity (featherBurst x y s) = gravity s"
  "jumpVel (featherBurst x y s) = jumpVel s"
  "scroll (featherBurst x y s) = scroll s"
  "roomHue (featherBurst x y s) = roomHue s"
  "popHue (featherBurst x y s) = popHue s"
  "popHue2 (featherBurst x y s) = popHue2 s"
  "plateauLift (featherBurst x y s) = plateauLift s"
  "sp_cd (featherBurst x y s) = sp_cd s"
  "runChunksLeft (featherBurst x y s) = runChunksLeft s"
  "needLanding (featherBurst x y s) = needLanding s"
  "platformSpawner_cd (featherBurst x y s) = platformSpawner_cd s"
  "eggSpawner_cd (featherBurst x y s) = eggSpawner_cd s"
  "terrain_level (featherBurst x y s) = terrain_level s"
  "terrain_runLeft (featherBurst x y s) = terrain_runLeft s"
  "objs (featherBurst x y s) = objs s"
  "next_ref (featherBurst x y s) = next_ref s"
  "obstacles (featherBurst x y s) = obstacles s"
  "platforms (featherBurst x y s) = platforms s"
  "pickups (featherBurst x y s) = pickups s"
  "eggs (featherBurst x y s) = eggs s"
  "keys (featherBurst x y s) = keys s"
  "last_ms (featherBurst x y s) = last_ms s"
  "random (featherBurst x y s) = random s"
  using featherBurst_eq[of x y s] by auto

lemma dustPuff_fields:
  "mode (dustPuff x y s) = mode s"
  "st_t (dustPuff x y s) = st_t s"
  "st_dt (dustPuff x y s) = st_dt s"
  "timeScale (dustPuff x y s) = timeScale s"
  "timeMode (dustPuff x y s) = timeMode s"
  "speed (dustPuff x y s) = speed s"
  "difficulty (dustPuff x y s) = difficulty s"
  "score (dustPuff x y s) = score s"
  "best (dustPuff x y s) = best s"
  "corn (dustPuff x y s) = corn s"
  "heartsMax (dustPuff x y s) = heartsMax s"
  "heartIndex (dustPuff x y s) = heartIndex s"
  "hearts (dustPuff x y s) = hearts s"
  "heartsSmooth (dustPuff x y s) = heartsSmooth s"
  "flyFuelMax (dustPuff x y s) = flyFuelMax s"
  "flyFuel (dustPuff x y s) = flyFuel s"
  "flyRefuelDelay (dustPuff x y s) = flyRefuelDelay s"
  "flyRefuelCd (dustPuff x y s) = flyRefuelCd s"
  "shake (dustPuff x y s) = shake s"
  "hintBlink (dustPuff x y s) = hintBlink s"
  "p_x (dustPuff x y s) = p_x s"
  "p_y (dustPuff x y s) = p_y s"
  "p_vx (dustPuff x y s) = p_vx s"
  "p_vy (dustPuff x y s) = p_vy s"
  "p_w (dustPuff x y s) = p_w s"
  "p_h (dustPuff x y s) = p_h s"
  "p_onGround (dustPuff x y s) = p_onGround s"
  "p_jumpBuffered (dustPuff x y s) = p_jumpBuffered s"
  "p_coyote (dustPuff x y s) = p_coyote s"
  "p_anim (dustPuff x y s) = p_anim s"
  "p_invuln (dustPuff x y s) = p_invuln s"
  "p_ground (dustPuff x y s) = p_ground s"
  "p_drop (dustPuff x y s) = p_drop s"
  "p_cluckCd (dustPuff x y s) = p_cluckCd s"
  "p_flyHold (dustPuff x y s) = p_flyHold s"
  "floorY (dustPuff x y s) = floorY s"
  "leftBound (dustPuff x y s) = leftBound s"
  "rightBound (dustPuff x y s) = rightBound s"
  "gravity (dustPuff x y s) = gravity s"
  "jumpVel (dustPuff x y s) = jumpVel s"
  "scroll (dustPuff x y s) = scroll s"
  "roomHue (dustPuff x y s) = roomHue s"
  "popHue (dustPuff x y s) = popHue s"
  "popHue2 (dustPuff x y s) = popHue2 s"
  "plateauLift (dustPuff x y s) = plateauLift s"
  "sp_cd (dustPuff x y s) = sp_cd s"
  "runChunksLeft (dustPuff x y s) = runChunksLeft s"
  "needLanding (dustPuff x y s) = needLanding s"
  "platformSpawner_cd (dustPuff x y s) = platformSpawner_cd s"
  "eggSpawner_cd (dustPuff x y s) = eggSpawner_cd s"
  "terrain_level (dustPuff x y s) = terrain_level s"
  "terrain_runLeft (dustPuff x y s) = terrain_runLeft s"
  "objs (dustPuff x y s) = objs s"
  "next_ref (dustPuff x y s) = next_ref s"
  "obstacles (dustPuff x y s) = obstacles s"
  "platforms (dustPuff x y s) = platforms s"
  "pickups (dustPuff x y s) = pickups s"
  "eggs (dustPuff x y s) = eggs s"
  "keys (dustPuff x y s) = keys s"
  "last_ms (dustPuff x y s) = last_ms s"
  "random (dustPuff x y s) = random s"
  using dustPuff_eq[of x y s] by auto

lemma yolkBurst_fields:
  "mode (yolkBurst x y s) = mode s"
  "st_t (yolkBurst x y s) = st_t s"
  "st_dt (yolkBurst x y s) = st_dt s"
  "timeScale (yolkBurst x y s) = timeScale s"
  "timeMode (yolkBurst x y s) = timeMode s"
  "speed (yolkBurst x y s) = speed s"
  "difficulty (yolkBurst x y s) = difficulty s"
  "score (yolkBurst x y s) = score s"
  "best (yolkBurst x y s) = best s"
  "corn (yolkBurst x y s) = corn s"
  "heartsMax (yolkBurst x y s) = heartsMax s"
  "heartIndex (yolkBurst x y s) = heartIndex s"
  "hearts (yolkBurst x y s) = hearts s"
  "heartsSmooth (yolkBurst x y s) = heartsSmooth s"
  "flyFuelMax (yolkBurst x y s) = flyFuelMax s"
  "flyFuel (yolkBurst x y s) = flyFuel s"
  "flyRefuelDelay (yolkBurst x y s) = flyRefuelDelay s"
  "flyRefuelCd (yolkBurst x y s) = flyRefuelCd s"
  "shake (yolkBurst x y s) = shake s"
  "hintBlink (yolkBurst x y s) = hintBlink s"
  "p_x (yolkBurst x y s) = p_x s"
  "p_y (yolkBurst x y s) = p_y s"
  "p_vx (yolkBurst x y s) = p_vx s"
  "p_vy (yolkBurst x y s) = p_vy s"
  "p_w (yolkBurst x y s) = p_w s"
  "p_h (yolkBurst x y s) = p_h s"
  "p_onGround (yolkBurst x y s) = p_onGround s"
  "p_jumpBuffered (yolkBurst x y s) = p_jumpBuffered s"
  "p_coyote (yolkBurst x y s) = p_coyote s"
  "p_anim (yolkBurst x y s) = p_anim s"
  "p_invuln (yolkBurst x y s) = p_invuln s"
  "p_ground (yolkBurst x y s) = p_ground s"
  "p_drop (yolkBurst x y s) = p_drop s"
  "p_cluckCd (yolkBurst x y s) = p_cluckCd s"
  "p_flyHold (yolkBurst x y s) = p_flyHold s"
  "floorY (yolkBurst x y s) = floorY s"
  "leftBound (yolkBurst x y s) = leftBound s"
  "rightBound (yolkBurst x y s) = rightBound s"
  "gravity (yolkBurst x y s) = gravity s"
  "jumpVel (yolkBurst x y s) = jumpVel s"
  "scroll (yolkBurst x y s) = scroll s"
  "roomHue (yolkBurst x y s) = roomHue s"
  "popHue (yolkBurst x y s) = popHue s"
  "popHue2 (yolkBurst x y s) = popHue2 s"
  "plateauLift (yolkBurst x y s) = plateauLift s"
  "sp_cd (yolkBurst x y s) = sp_cd s"
  "runChunksLeft (yolkBurst x y s) = runChunksLeft s"
  "needLanding (yolkBurst x y s) = needLanding s"
  "platformSpawner_cd (yolkBurst x y s) = platformSpawner_cd s"
  "eggSpawner_cd (yolkBurst x y s) = eggSpawner_cd s"
  "terrain_level (yolkBurst x y s) = terrain_level s"
  "terrain_runLeft (yolkBurst x y s) = terrain_runLeft s"
  "objs (yolkBurst x y s) = objs s"
  "next_ref (yolkBurst x y s) = next_ref s"
  "obstacles (yolkBurst x y s) = obstacles s"
  "platforms (yolkBurst x y s) = platforms s"
  "pickups (yolkBurst x y s) = pickups s"
  "eggs (yolkBurst x y s) = eggs s"
  "keys (yolkBurst x y s) = keys s"
  "last_ms (yolkBurst x y s) = last_ms s"
  "random (yolkBurst x y s) = random s"
  using yolkBurst_eq[of x y s] by auto

lemmas burst_fields = featherBurst_fields dustPuff_fields yolkBurst_fields

subsection \<open>Damage\<close>

lemma hurt_active:
  assumes "mode s = Playing" and "\<not> p_invuln s > 0"
  shows "\<exists>qs n. hurt ob a s =
           heart_lost ((knock_back ob a s)\<lparr>particles := particles s @ qs, rng := n\<rparr>)"
proof -
  define s1 where "s1 = knock_back ob a s"
  obtain qs n where fb: "featherBurst (p_x s1 + p_w s1 * 0.55) (p_y s1 + p_h s1 * 0.55) s1
      = s1\<lparr>particles := particles s1 @ qs, rng := n\<rparr>"
    using featherBurst_eq by blast
  have "particles s1 = particles s"
    by (simp add: s1_def knock_back_def Let_def)
  with fb assms have "hurt ob a s = heart_lost (s1\<lparr>particles := particles s @ qs, rng := n\<rparr>)"
    by (simp add: hurt_def Let_def s1_def)
  then show ?thesis unfolding s1_def by blast
qed

lemma knock_back_hearts:
  "hearts (knock_back ob a s) = (hearts s)[heartIndex s := max 0 (hearts s ! heartIndex s - a)]"
  "heartIndex (knock_back ob a s) = heartIndex s"
  "heartsMax (knock_back ob a s) = heartsMax s"
  "mode (knock_back ob a s) = mode s"
  "best (knock_back ob a s) = best s"
  "score (knock_back ob a s) = score s"
  "corn (knock_back ob a s) = corn s"
  "p_invuln (knock_back ob a s) = 1"
  by (simp_all add: knock_back_def Let_def)

text \<open>
  C4. When a hit empties the active heart (its health less the amount is not positive)
  and that heart is not the last one, the spent heart is left at 0, the index of the
  active heart advances by exactly 1, the new active heart is at 100, and \<open>heartsMax\<close>
  is unchanged. When it is the last heart, the mode becomes game over and the best score
  becomes the larger of the best score and the floored score.
\<close>

theorem hurt_empties_heart:
  assumes "mode s = Playing" and "\<not> p_invuln s > 0"
    and "length (hearts s) = heartsMax s" and "heartIndex s < heartsMax s"
    and "max 0 (hearts s ! heartIndex s - amount) = 0"
  shows "if heartIndex s < heartsMax s - 1
         then hearts (hurt ob amount s) ! heartIndex s = 0
            \<and> heartIndex (hurt ob amount s) = heartIndex s + 1
            \<and> hearts (hurt ob amount s) ! heartIndex (hurt ob amount s) = 100
            \<and> heartsMax (hurt ob amount s) = heartsMax s
            \<and> mode (hurt ob amount s) = Playing
         else mode (hurt ob amount s) = Gameover
            \<and> best (hurt ob amount s) = max (best s) (Math_floor (score s))
            \<and> hearts (hurt ob amount s) ! heartIndex s = 0
            \<and> heartIndex (hurt ob amount s) = heartIndex s
            \<and> heartsMax (hurt ob amount s) = heartsMax s"
proof -
  obtain qs n where h: "hurt ob amount s =
      heart_lost ((knock_back ob amount s)\<lparr>particles := particles s @ qs, rng := n\<rparr>)"
    using hurt_active[OF assms(1,2)] by blast
  show ?thesis
    using assms(1,3,4,5)
    by (auto simp: h heart_lost_def knock_back_hearts gameOver_def Let_def)
qed

theorem hurt_empties_heart_witness:
  "(mode (ex_run\<lparr>hearts := [4, 100]\<rparr>) = Playing
    \<and> \<not> p_invuln (ex_run\<lparr>hearts := [4, 100]\<rparr>) > 0
    \<and> length (hearts (ex_run\<lparr>hearts := [4, 100]\<rparr>)) = heartsMax (ex_run\<lparr>hearts := [4, 100]\<rparr>)
    \<and> heartIndex (ex_run\<lparr>hearts := [4, 100]\<rparr>) < heartsMax (ex_run\<lparr>hearts := [4, 100]\<rparr>)
    \<and> max 0 (hearts (ex_run\<lparr>hearts := [4, 100]\<rparr>) ! heartIndex (ex_run\<lparr>hearts := [4, 100]\<rparr>) - 12) = 0
    \<and> heartIndex (ex_run\<lparr>hearts := [4, 100]\<rparr>) < heartsMax (ex_run\<lparr>hearts := [4, 100]\<rparr>) - 1)
   \<and> hearts (hurt 0 12 (ex_run\<lparr>hearts := [4, 100]\<rparr>)) ! 0 = 0
   \<and> heartIndex (hurt 0 12 (ex_run\<lparr>hearts := [4, 100]\<rparr>)) = 1
   \<and> hearts (hurt 0 12 (ex_run\<lparr>hearts := [4, 100]\<rparr>)) ! 1 = 100
   \<and> mode (hurt 0 12 (ex_run\<lparr>hearts := [4, 100]\<rparr>)) = Playing
   \<and> mode (hurt 0 12 (ex_run\<lparr>hearts := [0, 4], heartIndex := 1, score := 1234.5, best := 1000\<rparr>)) = Gameover
   \<and> best (hurt 0 12 (ex_run\<lparr>hearts := [0, 4], heartIndex := 1, score := 1234.5, best := 1000\<rparr>)) = 1234"
  using hurt_empties_heart [of "ex_run\<lparr>hearts := [4, 100]\<rparr>" 12 0]
    hurt_empties_heart [of "ex_run\<lparr>hearts := [0, 4], heartIndex := 1, score := 1234.5, best := 1000\<rparr>" 12 0]
  by (auto simp: ex_run_def init_game_def Math_floor_def)

text \<open>
  C6. \<^verbatim>\<open>hurt\<close> called while the invulnerability timer is positive, or while the mode is
  not playing, returns the state as it was: no field changes.
\<close>

theorem hurt_noop:
  assumes "p_invuln s > 0 \<or> mode s \<noteq> Playing"
  shows "hurt ob amount s = s"
  using assms by (auto simp: hurt_def)

theorem hurt_noop_witness:
  "(p_invuln (ex_run\<lparr>p_invuln := 0.5\<rparr>) > 0 \<or> mode (ex_run\<lparr>p_invuln := 0.5\<rparr>) \<noteq> Playing)
   \<and> hurt 0 12 (ex_run\<lparr>p_invuln := 0.5\<rparr>) = ex_run\<lparr>p_invuln := 0.5\<rparr>
   \<and> (p_invuln (ex_run\<lparr>mode := Paused\<rparr>) > 0 \<or> mode (ex_run\<lparr>mode := Paused\<rparr>) \<noteq> Playing)
   \<and> hurt 0 12 (ex_run\<lparr>mode := Paused\<rparr>) = ex_run\<lparr>mode := Paused\<rparr>"
  using hurt_noop [of "ex_run\<lparr>p_invuln := 0.5\<rparr>" 0 12] hurt_noop [of "ex_run\<lparr>mode := Paused\<rparr>" 0 12]
  by (simp add: ex_run_def init_game_def)


lemma damage_scan_find:
  "damage_scan hb rs s =
     (case find (\<lambda>r. front_hit hb r s) rs of None \<Rightarrow> s | Some r \<Rightarrow> hurt r 12 s)"
  by (induction rs) (auto simp: front_hit_def Let_def)

lemma knock_back_vx:
  "p_vx (knock_back ob a s) =
     (if p_x s + p_w s * 0.5 < e_x (objs s ob) + e_w (objs s ob) * 0.5 then - 320 else 320)"
  by (simp add: knock_back_def Let_def)

lemma hurt_effect:
  assumes "mode s = Playing" and "\<not> p_invuln s > 0" and "heartIndex s < length (hearts s)"
  shows "hearts (hurt ob a s) ! heartIndex s = max 0 (hearts s ! heartIndex s - a)"
    and "0 < p_invuln (hurt ob a s)"
    and "p_vx (hurt ob a s) =
      (if p_x s + p_w s * 0.5 < e_x (objs s ob) + e_w (objs s ob) * 0.5 then - 320 else 320)"
proof -
  obtain qs n where h: "hurt ob a s =
      heart_lost ((knock_back ob a s)\<lparr>particles := particles s @ qs, rng := n\<rparr>)"
    using hurt_active[OF assms(1,2)] by blast
  show "hearts (hurt ob a s) ! heartIndex s = max 0 (hearts s ! heartIndex s - a)"
    using assms(3) by (auto simp: h heart_lost_def knock_back_hearts gameOver_def Let_def)
  show "0 < p_invuln (hurt ob a s)"
    by (simp add: h heart_lost_def knock_back_hearts gameOver_def Let_def)
  show "p_vx (hurt ob a s) =
      (if p_x s + p_w s * 0.5 < e_x (objs s ob) + e_w (objs s ob) * 0.5 then - 320 else 320)"
    by (simp add: h heart_lost_def knock_back_vx gameOver_def Let_def)
qed

lemma ex_low_hit: "damage_pass (hitbox ex_low) ex_low = hurt 0 12 ex_low"
  by (simp add: damage_pass_def ex_low_def ex_front_def ex_run_def init_game_def ex_block_def
      hitbox_def hits_def aabb_def Let_def)

lemma ex_front_hit: "damage_pass (hitbox ex_front) ex_front = hurt 0 12 ex_front"
  by (simp add: damage_pass_def ex_front_def ex_run_def init_game_def ex_block_def
      hitbox_def hits_def aabb_def Let_def)

text \<open>
  C5 as stated fails where the active heart holds less than the damage: with 4 health
  left, a front-on hit of 12 leaves 0, which is not 4 - 12.
\<close>

theorem damage_amount_counterexample:
  "mode ex_low = Playing \<and> \<not> p_invuln ex_low > 0
   \<and> front_hit (hitbox ex_low) 0 ex_low
   \<and> damage_pass (hitbox ex_low) ex_low = hurt 0 12 ex_low
   \<and> hearts ex_low ! heartIndex ex_low = 4
   \<and> hearts (damage_pass (hitbox ex_low) ex_low) ! heartIndex ex_low = 0
   \<and> hearts (damage_pass (hitbox ex_low) ex_low) ! heartIndex ex_low
       \<noteq> hearts ex_low ! heartIndex ex_low - 12"
proof -
  have a: "mode ex_low = Playing" "heartIndex ex_low < length (hearts ex_low)"
    "\<not> p_invuln ex_low > 0" "hearts ex_low ! heartIndex ex_low = 4"
    by (simp_all add: ex_low_def ex_front_def ex_run_def init_game_def)
  have f: "front_hit (hitbox ex_low) 0 ex_low"
    by (simp add: front_hit_def ex_low_def ex_front_def ex_run_def init_game_def ex_block_def
      hitbox_def hits_def aabb_def)
  show ?thesis
    using a f ex_low_hit hurt_effect(1)[OF a(1) a(3) a(2), of 0 12] by simp
qed


text \<open>
  C5, amended. For a state in play, the damage loop either leaves the state as it is, or
  there is one obstacle of the pool for which all of this holds: the player is not
  invulnerable; the inner hitbox overlaps the obstacle; the obstacle is not the ground
  the player stands on; the bottom of the hitbox is more than 4 below the top of the
  obstacle (so it is not above it); the centre of the player is at or left of the centre
  of the obstacle; and the outcome of the whole loop is the one call \<^verbatim>\<open>hurt(o)\<close> with the
  amount 12 for that obstacle. That call leaves the hit heart at its health less 12, but
  not below 0; it starts an invulnerability window; and it sets the horizontal velocity
  to 320 away from the centre of the obstacle.
\<close>

theorem front_damage:
  assumes "mode s = Playing" and "heartIndex s < length (hearts s)"
  shows "damage_pass (hitbox s) s = s
    \<or> (\<exists>r \<in> set (obstacles s).
         \<not> p_invuln s > 0
         \<and> aabb (p_x s + 8) (p_y s + 8) (p_w s - 16) (p_h s - 10)
              (e_x (objs s r)) (e_y (objs s r)) (e_w (objs s r)) (e_h (objs s r))
         \<and> \<not> (p_ground s = Some r \<and> p_onGround s)
         \<and> e_y (objs s r) + 4 < p_y s + 8 + (p_h s - 10)
         \<and> p_x s + p_w s * 0.5 \<le> e_x (objs s r) + e_w (objs s r) * 0.5
         \<and> damage_pass (hitbox s) s = hurt r 12 s
         \<and> hearts (hurt r 12 s) ! heartIndex s = max 0 (hearts s ! heartIndex s - 12)
         \<and> 0 < p_invuln (hurt r 12 s)
         \<and> p_vx (hurt r 12 s) =
             (if p_x s + p_w s * 0.5 < e_x (objs s r) + e_w (objs s r) * 0.5 then - 320 else 320))"
proof (cases "find (\<lambda>r. front_hit (hitbox s) r s) (obstacles s)")
  case None
  then show ?thesis by (simp add: damage_pass_def damage_scan_find)
next
  case (Some r)
  then have d: "damage_pass (hitbox s) s = hurt r 12 s"
    by (simp add: damage_pass_def damage_scan_find)
  from Some have mem: "r \<in> set (obstacles s)" and fh: "front_hit (hitbox s) r s"
    by (auto simp: find_Some_iff)
  show ?thesis
  proof (cases "p_invuln s > 0")
    case True
    then have "hurt r 12 s = s" by (simp add: hurt_def)
    with d show ?thesis by simp
  next
    case False
    have geo: "aabb (p_x s + 8) (p_y s + 8) (p_w s - 16) (p_h s - 10)
              (e_x (objs s r)) (e_y (objs s r)) (e_w (objs s r)) (e_h (objs s r))
         \<and> \<not> (p_ground s = Some r \<and> p_onGround s)
         \<and> e_y (objs s r) + 4 < p_y s + 8 + (p_h s - 10)
         \<and> p_x s + p_w s * 0.5 \<le> e_x (objs s r) + e_w (objs s r) * 0.5"
      using fh by (simp add: front_hit_def hitbox_def hits_def not_le)
    show ?thesis
      using mem False geo d hurt_effect[OF assms(1) False assms(2), of r 12]
      by blast
  qed
qed

theorem front_damage_witness:
  "mode ex_front = Playing \<and> heartIndex ex_front < length (hearts ex_front)
   \<and> damage_pass (hitbox ex_front) ex_front \<noteq> ex_front
   \<and> hearts ex_front ! heartIndex ex_front = 100
   \<and> hearts (damage_pass (hitbox ex_front) ex_front) ! heartIndex ex_front = 88
   \<and> 0 < p_invuln (damage_pass (hitbox ex_front) ex_front)
   \<and> p_vx (damage_pass (hitbox ex_front) ex_front) = - 320"
proof -
  have a: "mode ex_front = Playing" "heartIndex ex_front < length (hearts ex_front)"
    "\<not> p_invuln ex_front > 0" "obstacles ex_front = [0]"
    "hearts ex_front ! heartIndex ex_front = 100"
    "p_x ex_front + p_w ex_front * 0.5 < e_x (objs ex_front 0) + e_w (objs ex_front 0) * 0.5"
    by (simp_all add: ex_front_def ex_run_def init_game_def ex_block_def)
  have ne: "hurt 0 12 ex_front \<noteq> ex_front"
    using hurt_effect(2)[OF a(1) a(3) a(2), of 0 12] a(3) by auto
  show ?thesis
    using front_damage[OF a(1) a(2)] a ne ex_front_hit by auto
qed

subsection \<open>Pickups\<close>








subsection \<open>The obstacle spawner\<close>

lemma pick_snd: "snd (pick s) = s\<lparr>rng := rng s + 1\<rparr>"
  by (simp add: pick_def randi_eq split_def)

lemma makeWH_snd:
  "snd (makeWH t s) = s\<lparr>rng := rng s + (if difficulty s > 0.55 then 1 else 0)\<rparr>"
  by (cases t) (simp add: makeWH_def Math_random_eq split_def Let_def)

lemma spawnObstacle_eq:
  "spawnObstacle W w h knd (Some x) s =
     s\<lparr>objs := (objs s)(next_ref s := \<lparr>e_x = x, e_y = floorY s - h, e_w = w, e_h = h,
                                       e_kind = knd, e_bob = random s (rng s) * (pi * 2)\<rparr>),
       next_ref := next_ref s + 1,
       obstacles := obstacles s @ [next_ref s],
       rng := rng s + 1\<rparr>"
  by (simp add: spawnObstacle_def rand_eq Let_def)

lemma spawnCorn_eq:
  "\<exists>p. spawnCorn W (Some x) s = s\<lparr>pickups := pickups s @ [p], rng := rng s + 2\<rparr> \<and> k_value p = 1"
  by (rule exI[of _ "last (pickups (spawnCorn W (Some x) s))"])
     (simp add: spawnCorn_def randi_eq Let_def)

lemma spawnBigCorn_eq:
  "\<exists>p. spawnBigCorn W (Some x) s = s\<lparr>pickups := pickups s @ [p], rng := rng s + 2\<rparr> \<and> k_value p = 3"
  by (rule exI[of _ "last (pickups (spawnBigCorn W (Some x) s))"])
     (simp add: spawnBigCorn_def randi_eq Let_def)

lemma chunk_x1_rng [simp]: "chunk_x1 W v (s\<lparr>rng := n\<rparr>) = chunk_x1 W v s"
  by (simp add: chunk_x1_def lastEndX_def reqPx_def landingSpacingPx_def minSpacingPx_def
      jumpTravelPx_def airTime_def reactionPx_def)

lemma second_obstacle_pool:
  "r < next_ref s \<Longrightarrow> objs (snd (second_obstacle W c x1 w1 s)) r = objs s r"
  "take (length (obstacles s)) (obstacles (snd (second_obstacle W c x1 w1 s))) = obstacles s"
  "length (obstacles s) \<le> length (obstacles (snd (second_obstacle W c x1 w1 s)))"
  "runChunksLeft (snd (second_obstacle W c x1 w1 s)) = runChunksLeft s"
  "needLanding (snd (second_obstacle W c x1 w1 s)) = needLanding s"
  by (simp_all add: second_obstacle_def split_def Let_def spawnObstacle_eq pick_snd makeWH_snd rand_eq)

lemma spawnCorn_pool [simp]:
  "objs (spawnCorn W xo s) = objs s" "obstacles (spawnCorn W xo s) = obstacles s"
  "next_ref (spawnCorn W xo s) = next_ref s" "runChunksLeft (spawnCorn W xo s) = runChunksLeft s"
  "needLanding (spawnCorn W xo s) = needLanding s" "sp_cd (spawnCorn W xo s) = sp_cd s"
  "platforms (spawnCorn W xo s) = platforms s" "eggs (spawnCorn W xo s) = eggs s"
  "random (spawnCorn W xo s) = random s"
  by (simp_all add: spawnCorn_def randi_eq rand_eq Let_def split_def split: option.split)

lemma spawnBigCorn_pool [simp]:
  "objs (spawnBigCorn W xo s) = objs s" "obstacles (spawnBigCorn W xo s) = obstacles s"
  "next_ref (spawnBigCorn W xo s) = next_ref s" "runChunksLeft (spawnBigCorn W xo s) = runChunksLeft s"
  "needLanding (spawnBigCorn W xo s) = needLanding s" "sp_cd (spawnBigCorn W xo s) = sp_cd s"
  "platforms (spawnBigCorn W xo s) = platforms s" "eggs (spawnBigCorn W xo s) = eggs s"
  "random (spawnBigCorn W xo s) = random s"
  by (simp_all add: spawnBigCorn_def randi_eq rand_eq Let_def split_def split: option.split)

lemma chunk_corn_pool [simp]:
  "objs (chunk_corn W c e s) = objs s" "obstacles (chunk_corn W c e s) = obstacles s"
  "next_ref (chunk_corn W c e s) = next_ref s" "runChunksLeft (chunk_corn W c e s) = runChunksLeft s"
  "needLanding (chunk_corn W c e s) = needLanding s"
  by (simp_all add: chunk_corn_def Math_random_eq rand_eq Let_def split_def)

lemma chunk_done_pool [simp]:
  "objs (chunk_done s) = objs s" "obstacles (chunk_done s) = obstacles s"
  "next_ref (chunk_done s) = next_ref s" "runChunksLeft (chunk_done s) = runChunksLeft s - 1"
  "needLanding (chunk_done s) \<longleftrightarrow> 0 < runChunksLeft s - 1"
  by (simp_all add: chunk_done_def rand_eq Let_def split_def)

lemma emit_chunk_first:
  "obstacles (emit_chunk W s) ! length (obstacles s) = next_ref s"
  "length (obstacles s) < length (obstacles (emit_chunk W s))"
  "e_x (objs (emit_chunk W s) (next_ref s)) = chunk_x1 W (40 + random s (rng s + 1) * 100) s"
  "runChunksLeft (emit_chunk W s) = runChunksLeft s - 1"
  "needLanding (emit_chunk W s) \<longleftrightarrow> 0 < runChunksLeft s - 1"
proof -
  define x1 where "x1 = chunk_x1 W (40 + random s (rng s + 1) * 100) s"
  define s2 where "s2 = s\<lparr>rng := rng s + 2\<rparr>"
  define t1 where "t1 = fst (pick s2)"
  define wh where "wh = fst (makeWH t1 (snd (pick s2)))"
  define s5 where "s5 = spawnObstacle W (fst (snd wh)) (snd (snd wh)) (fst wh) (Some x1)
      (snd (makeWH t1 (snd (pick s2))))"
  define c where "c = (if difficulty s < 0.10 then 1
      else if random s (rng s) < lerp 0.30 0.55 (difficulty s) then 2 else 1 :: nat)"
  define so where "so = second_obstacle W c x1 (fst (snd wh)) s5"
  have e: "emit_chunk W s = chunk_done (chunk_corn W c (fst so) (snd so))"
    by (simp add: emit_chunk_def Math_random_eq rand_eq split_def Let_def so_def c_def s5_def
        wh_def t1_def s2_def x1_def)
  have p5: "obstacles s5 = obstacles s @ [next_ref s]" "next_ref s5 = next_ref s + 1"
    "objs s5 (next_ref s) = \<lparr>e_x = x1, e_y = floorY s - snd (snd wh), e_w = fst (snd wh),
        e_h = snd (snd wh), e_kind = fst wh, e_bob = random s5 (rng s5 - 1) * (pi * 2)\<rparr>"
    "runChunksLeft s5 = runChunksLeft s" "needLanding s5 = needLanding s"
    by (simp_all add: s5_def spawnObstacle_eq makeWH_snd pick_snd s2_def)
  have t: "take (length (obstacles s5)) (obstacles (snd so)) = obstacles s5"
    and l: "length (obstacles s5) \<le> length (obstacles (snd so))"
    and o: "objs (snd so) (next_ref s) = objs s5 (next_ref s)"
    and r: "runChunksLeft (snd so) = runChunksLeft s5" "needLanding (snd so) = needLanding s5"
    unfolding so_def using p5(2)
    by (simp_all add: second_obstacle_pool)
  have "obstacles (snd so) ! length (obstacles s) = take (length (obstacles s5)) (obstacles (snd so)) ! length (obstacles s)"
    using p5(1) by simp
  also have "\<dots> = next_ref s" using t p5(1) by simp
  finally show "obstacles (emit_chunk W s) ! length (obstacles s) = next_ref s"
    by (simp add: e)
  show "length (obstacles s) < length (obstacles (emit_chunk W s))"
    using l p5(1) by (simp add: e)
  show "e_x (objs (emit_chunk W s) (next_ref s)) = chunk_x1 W (40 + random s (rng s + 1) * 100) s"
    using o p5(3) by (simp add: e x1_def)
  show "runChunksLeft (emit_chunk W s) = runChunksLeft s - 1"
    using r p5 by (simp add: e)
  show "needLanding (emit_chunk W s) \<longleftrightarrow> 0 < runChunksLeft s - 1"
    using r p5 by (simp add: e)
qed


lemma spawner_body_in_run:
  "0 < runChunksLeft s \<Longrightarrow> spawner_body W s = emit_chunk W s"
  by (simp add: spawner_body_def)

lemma spawner_body_new_run:
  assumes "runChunksLeft s \<le> 0" and "random s (rng s) < lerp 0.50 0.72 (difficulty s)"
  shows "spawner_body W s =
     emit_chunk W (s\<lparr>rng := rng s + 2,
        runChunksLeft := Math_floor (1 + random s (rng s + 1)
           * (2 + (if difficulty s > 0.55 then 1 else 0) + 1 - 1)),
        needLanding := False\<rparr>)"
  using assms by (simp add: spawner_body_def Math_random_eq randi_eq Let_def)

lemma chunk_x1_gap:
  assumes "lastEndX s = Some e"
  shows "chunk_x1 W v s = max (W + v) (e + reqPx s)"
  using assms by (simp add: chunk_x1_def)

lemma landing_ge: "jumpTravelPx s + reactionPx s \<le> landingSpacingPx s"
  by (simp add: landingSpacingPx_def)

lemma lastEndX_upd [simp]:
  "lastEndX (s\<lparr>rng := n\<rparr>) = lastEndX s"
  "lastEndX (s\<lparr>runChunksLeft := k\<rparr>) = lastEndX s"
  "lastEndX (s\<lparr>needLanding := b\<rparr>) = lastEndX s"
  by (simp_all add: lastEndX_def)

lemma min_lt_landing:
  assumes "p_w s = 54" and "0 \<le> difficulty s"
  shows "minSpacingPx s < landingSpacingPx s"
proof -
  have "minSpacingPx s \<le> 240" using assms(2) by (simp add: minSpacingPx_def lerp_def)
  moreover have "254 \<le> landingSpacingPx s" using assms(1) by (simp add: landingSpacingPx_def)
  ultimately show ?thesis by simp
qed

lemma new_run_x:
  assumes "runChunksLeft s \<le> 0" and "random s (rng s) < lerp 0.50 0.72 (difficulty s)"
    and "lastEndX s = Some e"
  shows "e_x (objs (spawner_body W s) (obstacles (spawner_body W s) ! length (obstacles s)))
           = max (W + (40 + random s (rng s + 3) * 100)) (e + minSpacingPx s)"
proof -
  define s1 where "s1 = s\<lparr>rng := rng s + 2,
        runChunksLeft := Math_floor (1 + random s (rng s + 1)
           * (2 + (if difficulty s > 0.55 then 1 else 0) + 1 - 1)),
        needLanding := False\<rparr>"
  have b: "spawner_body W s = emit_chunk W s1"
    unfolding s1_def using assms(1,2) by (rule spawner_body_new_run)
  have f: "length (obstacles s1) = length (obstacles s)" "lastEndX s1 = Some e"
    "reqPx s1 = minSpacingPx s" "random s1 (Suc (rng s1)) = random s (rng s + 3)"
    using assms(3) by (simp_all add: s1_def reqPx_def minSpacingPx_def numeral_3_eq_3)
  have "e_x (objs (emit_chunk W s1) (obstacles (emit_chunk W s1) ! length (obstacles s1)))
      = max (W + (40 + random s1 (rng s1 + 1) * 100)) (e + reqPx s1)"
    using f(2) by (simp add: emit_chunk_first chunk_x1_gap)
  then show ?thesis by (simp add: b f)
qed

lemma ex_within_facts:
  "needLanding ex_within" "0 < runChunksLeft ex_within" "lastEndX ex_within = Some 1046"
  "difficulty ex_within = 0 \<and> jumpVel ex_within = - 760 \<and> gravity ex_within = 2400
     \<and> speed ex_within = 360"
  "obstacles ex_within = [0]" "reactionPx ex_within = 220" "landingSpacingPx ex_within = 448"
  "minSpacingPx ex_within = 240" "random ex_within = (\<lambda>n. 1 / 4)"
  by (simp_all add: ex_within_def ex_between_def ex_run_def init_game_def lastEndX_def ex_block_def
      reactionPx_def landingSpacingPx_def jumpTravelPx_def airTime_def lerp_def minSpacingPx_def)

lemma ex_between_facts:
  "runChunksLeft ex_between \<le> 0" "\<not> needLanding ex_between"
  "random ex_between (rng ex_between) < lerp 0.50 0.72 (difficulty ex_between)"
  "lastEndX ex_between = Some 1046" "obstacles ex_between = [0]"
  "landingSpacingPx ex_between = 448" "minSpacingPx ex_between = 240"
  "random ex_between = (\<lambda>n. 1 / 4)" "p_w ex_between = 54" "difficulty ex_between = 0"
  by (simp_all add: ex_between_def ex_run_def init_game_def lastEndX_def ex_block_def
      reactionPx_def landingSpacingPx_def jumpTravelPx_def airTime_def lerp_def minSpacingPx_def)

lemma ex_between_x:
  "e_x (objs (spawner_body 800 ex_between) (obstacles (spawner_body 800 ex_between) ! 1)) = 1286"
  using new_run_x[OF ex_between_facts(1,3,4), of 800] ex_between_facts
  by simp

lemma in_run_x:
  assumes "0 < runChunksLeft s" and "lastEndX s = Some e"
  shows "e_x (objs (spawner_body W s) (obstacles (spawner_body W s) ! length (obstacles s)))
           = max (W + (40 + random s (rng s + 1) * 100)) (e + reqPx s)"
  using assms by (simp add: spawner_body_in_run emit_chunk_first chunk_x1_gap)

lemma ex_within_x:
  "e_x (objs (spawner_body 800 ex_within) (obstacles (spawner_body 800 ex_within) ! 1)) = 1494"
  using in_run_x[OF ex_within_facts(2,3), of 800] ex_within_facts
  by (simp add: reqPx_def)

text \<open>
  C1. Whenever the obstacle spawner owes a landing gap (the flag \<^verbatim>\<open>needLanding\<close> is set
  and the run has chunks left) and the last obstacle of the pool ends at \<open>e\<close>, the body of
  the spawner loop adds an obstacle, and the first one it adds starts at least
  \<open>speed * (2 * |jumpVel| / gravity) + reactionPx\<close> after \<open>e\<close>. This holds in every state,
  so at every tick and for every difficulty. At difficulty 0, with jump velocity -760,
  gravity 2400 and speed 360, the reaction buffer is 220 and the new obstacle starts at
  least 228 + 220 after \<open>e\<close>, which is more than the 228 of jump travel.
\<close>

theorem landing_gap_enforced:
  assumes "needLanding s" and "0 < runChunksLeft s" and "lastEndX s = Some e"
  shows "length (obstacles s) < length (obstacles (spawner_body W s))
    \<and> e + (speed s * ((2 * \<bar>jumpVel s\<bar>) / gravity s) + reactionPx s)
        \<le> e_x (objs (spawner_body W s) (obstacles (spawner_body W s) ! length (obstacles s)))
    \<and> (difficulty s = 0 \<and> jumpVel s = - 760 \<and> gravity s = 2400 \<and> speed s = 360 \<longrightarrow>
         reactionPx s = 220
         \<and> e + (228 + reactionPx s)
             \<le> e_x (objs (spawner_body W s) (obstacles (spawner_body W s) ! length (obstacles s)))
         \<and> e + 228
             < e_x (objs (spawner_body W s) (obstacles (spawner_body W s) ! length (obstacles s))))"
proof -
  let ?x = "e_x (objs (spawner_body W s) (obstacles (spawner_body W s) ! length (obstacles s)))"
  have b: "spawner_body W s = emit_chunk W s"
    using assms(2) by (rule spawner_body_in_run)
  have x: "?x = max (W + (40 + random s (rng s + 1) * 100)) (e + landingSpacingPx s)"
    using assms(1,3) by (simp add: b emit_chunk_first chunk_x1_gap reqPx_def)
  have g: "speed s * ((2 * \<bar>jumpVel s\<bar>) / gravity s) + reactionPx s \<le> landingSpacingPx s"
    using landing_ge[of s] by (simp add: jumpTravelPx_def airTime_def)
  have 1: "e + (speed s * ((2 * \<bar>jumpVel s\<bar>) / gravity s) + reactionPx s) \<le> ?x"
    using x g by simp
  have 2: "length (obstacles s) < length (obstacles (spawner_body W s))"
    by (simp add: b emit_chunk_first)
  have 3: "difficulty s = 0 \<and> jumpVel s = - 760 \<and> gravity s = 2400 \<and> speed s = 360 \<longrightarrow>
         reactionPx s = 220 \<and> e + (228 + reactionPx s) \<le> ?x \<and> e + 228 < ?x"
  proof
    assume a: "difficulty s = 0 \<and> jumpVel s = - 760 \<and> gravity s = 2400 \<and> speed s = 360"
    then have r: "reactionPx s = 220" by (simp add: reactionPx_def lerp_def)
    have "speed s * ((2 * \<bar>jumpVel s\<bar>) / gravity s) = 228" using a by simp
    then show "reactionPx s = 220 \<and> e + (228 + reactionPx s) \<le> ?x \<and> e + 228 < ?x"
      using 1 r by simp
  qed
  show ?thesis using 1 2 3 by blast
qed

theorem landing_gap_enforced_witness:
  "needLanding ex_within \<and> 0 < runChunksLeft ex_within \<and> lastEndX ex_within = Some 1046
   \<and> difficulty ex_within = 0 \<and> jumpVel ex_within = - 760 \<and> gravity ex_within = 2400
   \<and> speed ex_within = 360
   \<and> 1046 + (228 + 220)
       \<le> e_x (objs (spawner_body 800 ex_within) (obstacles (spawner_body 800 ex_within) ! 1))"
  using landing_gap_enforced [OF ex_within_facts(1,2,3), of 800] ex_within_facts
  by simp

text \<open>
  C2 as stated fails both ways. Between two runs (no chunk left, flag off) the first
  chunk of the new run is placed 240 after the end of the last obstacle, although the
  landing gap is 448; inside a run (one chunk left, flag on) the next chunk is placed
  448 after it, although the short spacing is 240.
\<close>

theorem run_spacing_counterexample:
  "runChunksLeft ex_between = 0 \<and> \<not> needLanding ex_between
   \<and> lastEndX ex_between = Some 1046
   \<and> landingSpacingPx ex_between = 448
   \<and> e_x (objs (spawner_body 800 ex_between) (obstacles (spawner_body 800 ex_between) ! 1)) - 1046
       = 240
   \<and> runChunksLeft ex_within = 1 \<and> needLanding ex_within
   \<and> lastEndX ex_within = Some 1046
   \<and> minSpacingPx ex_within = 240
   \<and> e_x (objs (spawner_body 800 ex_within) (obstacles (spawner_body 800 ex_within) ! 1)) - 1046
       = 448"
  using ex_between_facts ex_within_facts ex_between_x ex_within_x
  by (simp add: ex_between_def ex_within_def ex_run_def init_game_def)


text \<open>
  C2, amended: the two spacings are the other way round. After each chunk the landing
  flag is set exactly when the run has chunks left. The next chunk of the same run then
  starts at the larger of the spawn position ahead of the canvas and the end \<open>e\<close> of the
  last obstacle plus the landing gap \<open>landingSpacingPx\<close>; the first chunk of a new run
  starts at the larger of the spawn position and \<open>e\<close> plus the short spacing
  \<open>minSpacingPx\<close>. The short spacing is below the landing gap.
\<close>

theorem run_spacing:
  assumes "lastEndX s = Some e"
  shows "(needLanding (emit_chunk W s) \<longleftrightarrow> 0 < runChunksLeft (emit_chunk W s))
    \<and> (0 < runChunksLeft s \<and> (needLanding s \<longleftrightarrow> 0 < runChunksLeft s) \<longrightarrow>
         e_x (objs (spawner_body W s) (obstacles (spawner_body W s) ! length (obstacles s)))
           = max (W + (40 + random s (rng s + 1) * 100)) (e + landingSpacingPx s))
    \<and> (runChunksLeft s \<le> 0 \<and> random s (rng s) < lerp 0.50 0.72 (difficulty s) \<longrightarrow>
         e_x (objs (spawner_body W s) (obstacles (spawner_body W s) ! length (obstacles s)))
           = max (W + (40 + random s (rng s + 3) * 100)) (e + minSpacingPx s))
    \<and> (p_w s = 54 \<and> 0 \<le> difficulty s \<longrightarrow> minSpacingPx s < landingSpacingPx s)"
proof -
  let ?x = "e_x (objs (spawner_body W s) (obstacles (spawner_body W s) ! length (obstacles s)))"
  have 1: "needLanding (emit_chunk W s) \<longleftrightarrow> 0 < runChunksLeft (emit_chunk W s)"
    by (simp add: emit_chunk_first)
  have 2: "?x = max (W + (40 + random s (rng s + 1) * 100)) (e + landingSpacingPx s)"
    if "0 < runChunksLeft s" and "needLanding s \<longleftrightarrow> 0 < runChunksLeft s"
    using that assms
    by (simp add: spawner_body_in_run emit_chunk_first chunk_x1_gap reqPx_def)
  have 3: "?x = max (W + (40 + random s (rng s + 3) * 100)) (e + minSpacingPx s)"
    if "runChunksLeft s \<le> 0" and "random s (rng s) < lerp 0.50 0.72 (difficulty s)"
    using new_run_x[OF that assms] .
  show ?thesis using 1 2 3 min_lt_landing[of s] by blast
qed

theorem run_spacing_witness:
  "lastEndX ex_between = Some 1046
   \<and> runChunksLeft ex_between \<le> 0
   \<and> random ex_between (rng ex_between) < lerp 0.50 0.72 (difficulty ex_between)
   \<and> e_x (objs (spawner_body 800 ex_between) (obstacles (spawner_body 800 ex_between) ! 1))
       = 1046 + 240
   \<and> lastEndX ex_within = Some 1046
   \<and> 0 < runChunksLeft ex_within \<and> (needLanding ex_within \<longleftrightarrow> 0 < runChunksLeft ex_within)
   \<and> e_x (objs (spawner_body 800 ex_within) (obstacles (spawner_body 800 ex_within) ! 1))
       = 1046 + 448
   \<and> p_w ex_between = 54 \<and> 0 \<le> difficulty ex_between
   \<and> minSpacingPx ex_between < landingSpacingPx ex_between"
  using run_spacing [OF ex_between_facts(4), of 800] run_spacing [OF ex_within_facts(3), of 800]
    ex_between_facts ex_within_facts
  by simp


subsection \<open>The bounds hold in every reachable state\<close>

lemma run_inv_cong: "vitals s' = vitals s \<Longrightarrow> pickups s' = pickups s \<Longrightarrow> run_inv s' = run_inv s"
  by (simp add: run_inv_def bounds_def pickups_ok_def vitals_def)

lemma keep_simple:
  "vitals (world_dims W H s) = vitals s" "pickups (world_dims W H s) = pickups s"
  "vitals (smooth_hearts dt tg s) = vitals s" "pickups (smooth_hearts dt tg s) = pickups s"
  "vitals (idle_update dt s) = vitals s" "pickups (idle_update dt s) = pickups s"
  "vitals (ramp dt s) = vitals s" "pickups (ramp dt s) = pickups s"
  "vitals (movement dt s) = vitals s" "pickups (movement dt s) = pickups s"
  "vitals (jump_timers dt s) = vitals s" "pickups (jump_timers dt s) = pickups s"
  "vitals (do_jump s) = vitals s" "pickups (do_jump s) = pickups s"
  "vitals (flight dt s) = vitals s" "pickups (flight dt s) = pickups s"
  "vitals (cluck dt s) = vitals s" "pickups (cluck dt s) = pickups s"
  "vitals (drop_through dt s) = vitals s" "pickups (drop_through dt s) = pickups s"
  "vitals (physics dt H s) = vitals s" "pickups (physics dt H s) = pickups s"
  "vitals (update_eggs dt s) = vitals s" "pickups (update_eggs dt s) = pickups s"
  "vitals (update_particles dt s) = vitals s" "pickups (update_particles dt s) = pickups s"
  "vitals (sticky s) = vitals s" "pickups (sticky s) = pickups s"
  "vitals (floor_landing landed wasOnGround s) = vitals s"
  "pickups (floor_landing landed wasOnGround s) = pickups s"
  "vitals (refuel dt s) = vitals s" "pickups (refuel dt s) = pickups s"
  "vitals (anim_step dt s) = vitals s" "pickups (anim_step dt s) = pickups s"
  "vitals (first_placement W s) = vitals s" "pickups (first_placement W s) = pickups s"
  "vitals (gameOver s) = vitals s" "pickups (gameOver s) = pickups s"
  "vitals (setTimeMode m s) = vitals s" "pickups (setTimeMode m s) = pickups s"
  "vitals (keyUp k s) = vitals s" "pickups (keyUp k s) = pickups s"
  "vitals (render W H s) = vitals s" "pickups (render W H s) = pickups s"
  by (simp_all add: vitals_def world_dims_def smooth_hearts_def idle_update_def ramp_def
      movement_def jump_timers_def do_jump_def flight_def cluck_def drop_through_def physics_def
      update_eggs_def update_particles_def sticky_def floor_landing_def refuel_def anim_step_def
      first_placement_def gameOver_def setTimeMode_def keyUp_def render_def
      Let_def split_def Math_random_eq rand_eq burst_fields
      split: option.split timeMode.split)

lemma vitals_eq_iff:
  "vitals a = vitals b \<longleftrightarrow>
     hearts a = hearts b \<and> heartIndex a = heartIndex b \<and> heartsMax a = heartsMax b
     \<and> corn a = corn b"
  by (simp add: vitals_def)

lemma scroll_objs_keep:
  "vitals (scroll_objs pool dx s) = vitals s" "pickups (scroll_objs pool dx s) = pickups s"
  "obstacles (scroll_objs pool dx s) = obstacles s" "platforms (scroll_objs pool dx s) = platforms s"
  "speed (scroll_objs pool dx s) = speed s"
  unfolding scroll_objs_def
  by (induction pool arbitrary: s) (simp_all add: vitals_def)

lemma update_pools_keep:
  "vitals (update_obstacles dt s) = vitals s" "pickups (update_obstacles dt s) = pickups s"
  "vitals (update_platforms dt s) = vitals s" "pickups (update_platforms dt s) = pickups s"
  using scroll_objs_keep(1)[unfolded vitals_eq_iff]
  by (simp_all add: update_obstacles_def update_platforms_def Let_def scroll_objs_keep vitals_def)

lemma update_pickups_keep:
  "vitals (update_pickups dt s) = vitals s"
  "pickups_ok s \<Longrightarrow> pickups_ok (update_pickups dt s)"
proof -
  show "vitals (update_pickups dt s) = vitals s"
    by (simp add: update_pickups_def vitals_def)
  have "set (pickups (update_pickups dt s))
      \<subseteq> (\<lambda>p. p\<lparr>k_x := k_x p - speed s * dt, k_t := k_t p + dt\<rparr>) ` set (pickups s)"
    using set_dropWhileD by (fastforce simp: update_pickups_def)
  then have sub: "\<And>p. p \<in> set (pickups (update_pickups dt s)) \<Longrightarrow>
      \<exists>q \<in> set (pickups s). k_value p = k_value q"
    by fastforce
  assume ok: "pickups_ok s"
  show "pickups_ok (update_pickups dt s)"
    unfolding pickups_ok_def
  proof
    fix p assume "p \<in> set (pickups (update_pickups dt s))"
    then obtain q where "q \<in> set (pickups s)" "k_value p = k_value q" using sub by blast
    then show "k_value p = 1 \<or> k_value p = 3" using ok by (simp add: pickups_ok_def)
  qed
qed

lemma land_scan_keep:
  "vitals (snd (land_scan pb b w rs s)) = vitals s \<and> pickups (snd (land_scan pb b w rs s)) = pickups s"
  by (induction rs) (simp_all add: Let_def vitals_def burst_fields)

lemma landing_keep:
  "vitals (landing prevY wasOnGround s) = vitals s"
  "pickups (landing prevY wasOnGround s) = pickups s"
  by (simp_all add: landing_def platform_landing_def obstacle_landing_def Let_def split_def
      keep_simple land_scan_keep)

lemma pickups_ok_cong: "pickups s' = pickups s \<Longrightarrow> pickups_ok s' = pickups_ok s"
  by (simp add: pickups_ok_def)

lemma move_entities_keep:
  "vitals (move_entities dt s) = vitals s"
  "pickups_ok s \<Longrightarrow> pickups_ok (move_entities dt s)"
proof -
  show "vitals (move_entities dt s) = vitals s"
    by (simp add: move_entities_def keep_simple update_pools_keep update_pickups_keep)
  assume "pickups_ok s"
  then have "pickups_ok (update_platforms dt (update_obstacles dt s))"
    using pickups_ok_cong[of "update_platforms dt (update_obstacles dt s)" s]
    by (simp add: update_pools_keep)
  then have "pickups_ok (update_pickups dt (update_platforms dt (update_obstacles dt s)))"
    by (rule update_pickups_keep(2))
  then show "pickups_ok (move_entities dt s)"
    using pickups_ok_cong[of "move_entities dt s"
        "update_pickups dt (update_platforms dt (update_obstacles dt s))"]
    by (simp add: move_entities_def keep_simple)
qed

lemma control_keep:
  "vitals (control dt s) = vitals s" "pickups (control dt s) = pickups s"
  by (simp_all add: control_def keep_simple)

lemma vitals_upd:
  "vitals (s\<lparr>rng := v0\<rparr>) = vitals s"
  "vitals (s\<lparr>sp_cd := v1\<rparr>) = vitals s"
  "vitals (s\<lparr>runChunksLeft := v2\<rparr>) = vitals s"
  "vitals (s\<lparr>needLanding := v3\<rparr>) = vitals s"
  "vitals (s\<lparr>platformSpawner_cd := v4\<rparr>) = vitals s"
  "vitals (s\<lparr>eggSpawner_cd := v5\<rparr>) = vitals s"
  "vitals (s\<lparr>terrain_level := v6\<rparr>) = vitals s"
  "vitals (s\<lparr>terrain_runLeft := v7\<rparr>) = vitals s"
  "vitals (s\<lparr>objs := v8\<rparr>) = vitals s"
  "vitals (s\<lparr>next_ref := v9\<rparr>) = vitals s"
  "vitals (s\<lparr>obstacles := v10\<rparr>) = vitals s"
  "vitals (s\<lparr>platforms := v11\<rparr>) = vitals s"
  "vitals (s\<lparr>eggs := v12\<rparr>) = vitals s"
  "vitals (s\<lparr>particles := v13\<rparr>) = vitals s"
  "vitals (s\<lparr>pickups := ps\<rparr>) = vitals s"
  by (simp_all add: vitals_def)

lemma pickups_ok_upd:
  "pickups_ok (s\<lparr>rng := v0\<rparr>) = pickups_ok s"
  "pickups_ok (s\<lparr>sp_cd := v1\<rparr>) = pickups_ok s"
  "pickups_ok (s\<lparr>runChunksLeft := v2\<rparr>) = pickups_ok s"
  "pickups_ok (s\<lparr>needLanding := v3\<rparr>) = pickups_ok s"
  "pickups_ok (s\<lparr>platformSpawner_cd := v4\<rparr>) = pickups_ok s"
  "pickups_ok (s\<lparr>eggSpawner_cd := v5\<rparr>) = pickups_ok s"
  "pickups_ok (s\<lparr>terrain_level := v6\<rparr>) = pickups_ok s"
  "pickups_ok (s\<lparr>terrain_runLeft := v7\<rparr>) = pickups_ok s"
  "pickups_ok (s\<lparr>objs := v8\<rparr>) = pickups_ok s"
  "pickups_ok (s\<lparr>next_ref := v9\<rparr>) = pickups_ok s"
  "pickups_ok (s\<lparr>obstacles := v10\<rparr>) = pickups_ok s"
  "pickups_ok (s\<lparr>platforms := v11\<rparr>) = pickups_ok s"
  "pickups_ok (s\<lparr>eggs := v12\<rparr>) = pickups_ok s"
  "pickups_ok (s\<lparr>particles := v13\<rparr>) = pickups_ok s"
  "pickups_ok (s\<lparr>pickups := pickups s @ [p]\<rparr>) \<longleftrightarrow> pickups_ok s \<and> (k_value p = 1 \<or> k_value p = 3)"
  by (auto simp: pickups_ok_def)

lemmas quiet_upd = vitals_upd pickups_ok_upd

lemma draws_keep:
  "vitals (snd (Math_random s)) = vitals s" "pickups_ok (snd (Math_random s)) = pickups_ok s"
  "vitals (snd (rand a b s)) = vitals s" "pickups_ok (snd (rand a b s)) = pickups_ok s"
  "vitals (snd (randi a b s)) = vitals s" "pickups_ok (snd (randi a b s)) = pickups_ok s"
  "vitals (snd (pick s)) = vitals s" "pickups_ok (snd (pick s)) = pickups_ok s"
  "vitals (snd (makeWH t s)) = vitals s" "pickups_ok (snd (makeWH t s)) = pickups_ok s"
  by (simp_all add: Math_random_eq rand_eq randi_eq pick_snd makeWH_snd quiet_upd)

lemma spawn_keep:
  "vitals (spawnPlatform W w y xo knd s) = vitals s"
  "pickups_ok (spawnPlatform W w y xo knd s) = pickups_ok s"
  "vitals (spawnObstacle W w h knd xo s) = vitals s"
  "pickups_ok (spawnObstacle W w h knd xo s) = pickups_ok s"
  "vitals (spawnCorn W xo s) = vitals s" "pickups_ok (spawnCorn W xo s) = pickups_ok s"
  "vitals (spawnBigCorn W xo s) = vitals s" "pickups_ok (spawnBigCorn W xo s) = pickups_ok s"
  "vitals (spawnEgg W xo s) = vitals s" "pickups_ok (spawnEgg W xo s) = pickups_ok s"
  by (simp_all add: spawnPlatform_def spawnObstacle_def spawnCorn_def spawnBigCorn_def
      spawnEgg_def rand_eq randi_eq Let_def split_def quiet_upd split: option.split)

lemma chunk_keep:
  "vitals (snd (second_obstacle W c x1 w1 s)) = vitals s"
  "pickups_ok (snd (second_obstacle W c x1 w1 s)) = pickups_ok s"
  "vitals (chunk_corn W c e s) = vitals s" "pickups_ok (chunk_corn W c e s) = pickups_ok s"
  "vitals (chunk_done s) = vitals s" "pickups_ok (chunk_done s) = pickups_ok s"
  "vitals (no_run s) = vitals s" "pickups_ok (no_run s) = pickups_ok s"
  by (simp_all add: second_obstacle_def chunk_corn_def chunk_done_def no_run_def
      Let_def split_def draws_keep spawn_keep quiet_upd)

lemma emit_chunk_keep:
  "vitals (emit_chunk W s) = vitals s" "pickups_ok (emit_chunk W s) = pickups_ok s"
  by (simp_all add: emit_chunk_def Let_def split_def draws_keep spawn_keep chunk_keep)

lemma spawner_body_keep:
  "vitals (spawner_body W s) = vitals s" "pickups_ok (spawner_body W s) = pickups_ok s"
  by (simp_all add: spawner_body_def Let_def split_def draws_keep chunk_keep emit_chunk_keep
      quiet_upd)

lemma spawner_loop_keep:
  "vitals (spawner_loop W i s) = vitals s \<and> pickups_ok (spawner_loop W i s) = pickups_ok s"
proof (induction W i s rule: spawner_loop.induct)
  case (1 W iters s)
  show ?case
  proof (cases "sp_cd s \<le> 0 \<and> iters < 6")
    case True
    then have "spawner_loop W iters s = spawner_loop W (iters + 1) (spawner_body W s)"
      by (subst spawner_loop.simps) simp
    then show ?thesis using "1.IH" True by (simp add: spawner_body_keep)
  next
    case False
    then have "spawner_loop W iters s = s" by (subst spawner_loop.simps) auto
    then show ?thesis by simp
  qed
qed

lemma obstacle_spawner_keep:
  "vitals (obstacle_spawner dt W s) = vitals s"
  "pickups_ok (obstacle_spawner dt W s) = pickups_ok s"
  by (simp_all add: obstacle_spawner_def spawner_loop_keep quiet_upd)

lemma fold_keep:
  assumes "\<And>i s. vitals (F i s) = vitals s" and "\<And>i s. pickups_ok (F i s) = pickups_ok s"
  shows "vitals (fold F js s) = vitals s" and "pickups_ok (fold F js s) = pickups_ok s"
  by (induction js arbitrary: s) (simp_all add: assms)

lemma spawnStairs_keep:
  "vitals (snd (spawnStairs W a b x s)) = vitals s"
  "pickups_ok (snd (spawnStairs W a b x s)) = pickups_ok s"
  by (simp_all add: spawnStairs_def Let_def fold_keep spawn_keep)

lemma terrain_keep:
  "vitals (plateau_shelf W x s) = vitals s" "pickups_ok (plateau_shelf W x s) = pickups_ok s"
  "vitals (terrain_start s) = vitals s" "pickups_ok (terrain_start s) = pickups_ok s"
  by (simp_all add: plateau_shelf_def terrain_start_def Let_def split_def draws_keep spawn_keep
      quiet_upd)

lemma terrain_segment_keep:
  "vitals (terrain_segment W s) = vitals s" "pickups_ok (terrain_segment W s) = pickups_ok s"
  by (simp_all add: terrain_segment_def Let_def split_def draws_keep spawn_keep terrain_keep
      spawnStairs_keep quiet_upd)

lemma spawners_keep:
  "vitals (spawners dt W s) = vitals s" "pickups_ok (spawners dt W s) = pickups_ok s"
  by (simp_all add: spawners_def platform_spawner_def egg_spawner_def Let_def split_def
      draws_keep spawn_keep terrain_keep terrain_segment_keep obstacle_spawner_keep quiet_upd)

lemma run_inv_burst:
  "run_inv (featherBurst x y s) = run_inv s" "run_inv (dustPuff x y s) = run_inv s" "run_inv (yolkBurst x y s) = run_inv s"
  by (simp_all add: run_inv_def bounds_def pickups_ok_def burst_fields)

lemma run_inv_knock_back:
  assumes "run_inv s" and "0 \<le> a"
  shows "run_inv (knock_back ob a s)"
proof -
  have h: "hearts (knock_back ob a s)
      = (hearts s)[heartIndex s := max 0 (hearts s ! heartIndex s - a)]"
    and o: "heartIndex (knock_back ob a s) = heartIndex s" "heartsMax (knock_back ob a s) = heartsMax s"
      "corn (knock_back ob a s) = corn s" "pickups (knock_back ob a s) = pickups s"
    by (simp_all add: knock_back_def Let_def)
  have i: "heartIndex s < length (hearts s)" using assms(1) by (simp add: run_inv_def bounds_def)
  then have "hearts s ! heartIndex s \<le> 100"
    using assms(1) by (simp add: run_inv_def bounds_def)
  then have "0 \<le> max 0 (hearts s ! heartIndex s - a) \<and> max 0 (hearts s ! heartIndex s - a) \<le> 100"
    using assms(2) by simp
  then have "\<forall>h \<in> set (hearts (knock_back ob a s)). 0 \<le> h \<and> h \<le> 100"
    using assms(1) unfolding h run_inv_def bounds_def
    by (metis insertE set_update_subset_insert subsetD)
  then show ?thesis using assms(1) by (simp add: run_inv_def bounds_def pickups_ok_def o h)
qed

lemma run_inv_heart_lost:
  assumes "run_inv s"
  shows "run_inv (heart_lost s)"
proof (cases "hearts s ! heartIndex s \<le> 0 \<and> heartIndex s < heartsMax s - 1")
  case True
  have "\<forall>h \<in> set ((hearts s)[heartIndex s := 0, Suc (heartIndex s) := 100]). 0 \<le> h \<and> h \<le> 100"
  proof
    fix h assume "h \<in> set ((hearts s)[heartIndex s := 0, Suc (heartIndex s) := 100])"
    then have "h = 100 \<or> h = 0 \<or> h \<in> set (hearts s)"
      by (meson insertE set_update_subset_insert subsetD)
    then show "0 \<le> h \<and> h \<le> 100" using assms by (auto simp: run_inv_def bounds_def)
  qed
  moreover have "Suc (heartIndex s) < heartsMax s" using True by arith
  ultimately show ?thesis using True assms
    by (simp add: heart_lost_def Let_def run_inv_def bounds_def pickups_ok_def)
next
  case False
  then show ?thesis using assms
    by (auto simp: heart_lost_def gameOver_def run_inv_def bounds_def pickups_ok_def)
qed

lemma run_inv_hurt:
  assumes "run_inv s" and "0 \<le> a"
  shows "run_inv (hurt ob a s)"
  using assms run_inv_knock_back[OF assms, of ob]
  by (simp add: hurt_def Let_def run_inv_heart_lost run_inv_burst)

lemma run_inv_damage_scan: "run_inv s \<Longrightarrow> run_inv (damage_scan hb rs s)"
  by (induction rs) (simp_all add: Let_def run_inv_hurt)

lemma run_inv_collect:
  assumes "run_inv s" and "k_value p = 1 \<or> k_value p = 3"
  shows "run_inv (snd (collect hb p s))" and "pickups (snd (collect hb p s)) = pickups s"
    and "k_value (fst (collect hb p s)) = k_value p"
  using assms
  by (auto simp: collect_def Let_def run_inv_burst burst_fields value_or_1_def run_inv_def bounds_def
      pickups_ok_def)

lemma run_inv_pickup_scan:
  assumes "run_inv s" and "\<forall>p \<in> set ps. k_value p = 1 \<or> k_value p = 3"
  shows "run_inv (snd (pickup_scan hb ps s)) \<and> pickups (snd (pickup_scan hb ps s)) = pickups s
     \<and> map k_value (fst (pickup_scan hb ps s)) = map k_value ps"
  using assms
proof (induction ps arbitrary: s)
  case Nil
  then show ?case by simp
next
  case (Cons p ps)
  have v: "k_value p = 1 \<or> k_value p = 3" using Cons.prems(2) by simp
  have 1: "run_inv (snd (collect hb p s))" "pickups (snd (collect hb p s)) = pickups s"
    "k_value (fst (collect hb p s)) = k_value p"
    using run_inv_collect[OF Cons.prems(1) v] by simp_all
  have 2: "run_inv (snd (pickup_scan hb ps (snd (collect hb p s))))
     \<and> pickups (snd (pickup_scan hb ps (snd (collect hb p s)))) = pickups (snd (collect hb p s))
     \<and> map k_value (fst (pickup_scan hb ps (snd (collect hb p s)))) = map k_value ps"
    using Cons.IH[OF 1(1)] Cons.prems(2) by simp
  show ?case using 1 2 by (simp add: split_def Let_def)
qed

lemma run_inv_pickup_pass:
  assumes "run_inv s"
  shows "run_inv (pickup_pass hb s)"
proof -
  have ok: "\<forall>p \<in> set (pickups s). k_value p = 1 \<or> k_value p = 3"
    using assms by (simp add: run_inv_def pickups_ok_def)
  have 1: "run_inv (snd (pickup_scan hb (pickups s) s))"
    and 2: "map k_value (fst (pickup_scan hb (pickups s) s)) = map k_value (pickups s)"
    using run_inv_pickup_scan[OF assms ok] by simp_all
  have "\<forall>p \<in> set (fst (pickup_scan hb (pickups s) s)). k_value p = 1 \<or> k_value p = 3"
  proof
    fix p assume "p \<in> set (fst (pickup_scan hb (pickups s) s))"
    then have "k_value p \<in> set (map k_value (fst (pickup_scan hb (pickups s) s)))" by simp
    then have "k_value p \<in> set (map k_value (pickups s))" using 2 by simp
    then show "k_value p = 1 \<or> k_value p = 3" using ok by auto
  qed
  then show ?thesis using 1
    by (simp add: pickup_pass_def split_def Let_def run_inv_def bounds_def pickups_ok_def)
qed

lemma run_inv_smash:
  assumes "run_inv s"
  shows "run_inv (snd (smash hb e s))"
  using assms
  by (auto simp: smash_def Let_def run_inv_burst run_inv_def bounds_def pickups_ok_def burst_fields)

lemma run_inv_egg_scan: "run_inv s \<Longrightarrow> run_inv (snd (egg_scan hb es s))"
  by (induction es arbitrary: s) (simp_all add: split_def Let_def run_inv_smash)

lemma run_inv_egg_pass: "run_inv s \<Longrightarrow> run_inv (egg_pass hb s)"
  using run_inv_egg_scan[of s hb "eggs s"]
  by (simp add: egg_pass_def split_def Let_def run_inv_def bounds_def pickups_ok_def)

lemma run_inv_collisions: "run_inv s \<Longrightarrow> run_inv (collisions s)"
  by (simp add: collisions_def Let_def damage_pass_def run_inv_damage_scan run_inv_pickup_pass run_inv_egg_pass)

lemma run_inv_step:
  assumes "run_inv s" and "vitals s' = vitals s" and "pickups_ok s \<Longrightarrow> pickups_ok s'"
  shows "run_inv s'"
  using assms by (simp add: run_inv_def bounds_def vitals_def)

lemma run_inv_update:
  assumes "run_inv s"
  shows "run_inv (update dt W H s)"
proof -
  define s1 where "s1 = world_dims W H (s\<lparr>st_dt := dt, st_t := st_t s + dt\<rparr>)"
  have i1: "run_inv s1"
    using assms by (rule run_inv_step) (simp_all add: s1_def world_dims_def vitals_def pickups_ok_def)
  show ?thesis
  proof (cases "mode s1 \<noteq> Playing")
    case True
    have "run_inv (idle_update dt s1)"
      using i1 by (rule run_inv_step) (simp_all add: keep_simple pickups_ok_def)
    then show ?thesis using True by (simp add: update_def s1_def Let_def)
  next
    case False
    define s2 where "s2 = control dt s1"
    define s3 where "s3 = move_entities dt (spawners dt W (physics dt H s2))"
    define s4 where "s4 = anim_step dt (refuel dt (landing (p_y s2) (p_onGround s2) s3))"
    define s5 where "s5 = collisions s4"
    define s7 where "s7 = first_placement W (s5\<lparr>shake := max 0 (shake s5 - dt)\<rparr>)"
    have i2: "run_inv s2"
      using i1 by (rule run_inv_step) (simp_all add: s2_def control_keep pickups_ok_def)
    have "run_inv (physics dt H s2)"
      using i2 by (rule run_inv_step) (simp_all add: keep_simple pickups_ok_def)
    then have "run_inv (spawners dt W (physics dt H s2))"
      by (rule run_inv_step) (simp_all add: spawners_keep)
    then have i3: "run_inv s3"
      unfolding s3_def by (rule run_inv_step) (simp_all add: move_entities_keep)
    have i4: "run_inv s4"
      using i3 by (rule run_inv_step) (simp_all add: s4_def keep_simple landing_keep pickups_ok_def)
    have i5: "run_inv s5" using i4 by (simp add: s5_def run_inv_collisions)
    have i7: "run_inv s7"
      using i5 by (rule run_inv_step) (simp_all add: s7_def first_placement_def vitals_def pickups_ok_def)
    have i8: "run_inv (gameOver s7)"
      using i7 by (rule run_inv_step) (simp_all add: keep_simple pickups_ok_def)
    have "update dt W H s = (if \<not> p_onGround s2 \<and> p_y s7 > H + 80 then gameOver s7 else s7)"
      unfolding update_def Let_def s7_def s5_def s4_def s3_def s2_def s1_def
      by (simp only: False[unfolded s1_def] if_False)
    then show ?thesis using i7 i8 by simp
  qed
qed

lemma run_inv_frame: "run_inv s \<Longrightarrow> run_inv (frame tnow W H s)"
proof -
  assume "run_inv s"
  then have "run_inv (s\<lparr>last_ms := tnow\<rparr>)"
    by (rule run_inv_step) (simp_all add: vitals_def pickups_ok_def)
  then have "run_inv (update dt W H (s\<lparr>last_ms := tnow\<rparr>))" for dt by (rule run_inv_update)
  then have "run_inv (render W H (update dt W H (s\<lparr>last_ms := tnow\<rparr>)))" for dt
    by (rule run_inv_step) (simp_all add: keep_simple pickups_ok_def)
  then show ?thesis by (simp add: frame_def Let_def)
qed

lemma run_inv_resetRun:
  assumes "run_inv s"
  shows "run_inv (resetRun W H s)"
proof -
  have f: "hearts (resetRun W H s) = (hearts s)[0 := 100, 1 := 100]"
    "heartIndex (resetRun W H s) = 0" "heartsMax (resetRun W H s) = heartsMax s"
    "corn (resetRun W H s) = 0" "pickups (resetRun W H s) = []"
    by (simp_all add: resetRun_def Let_def split_def randi_eq setTimeMode_def split: timeMode.split)
  have "\<forall>h \<in> set ((hearts s)[0 := 100, 1 := 100]). 0 \<le> h \<and> h \<le> 100"
  proof
    fix h assume "h \<in> set ((hearts s)[0 := 100, 1 := 100])"
    then have "h = 100 \<or> h \<in> set (hearts s)"
      by (meson insertE set_update_subset_insert subsetD)
    then show "0 \<le> h \<and> h \<le> 100" using assms by (auto simp: run_inv_def bounds_def)
  qed
  then show ?thesis using assms by (simp add: run_inv_def bounds_def pickups_ok_def f)
qed

lemma run_inv_startGame: "run_inv s \<Longrightarrow> run_inv (startGame W H s)"
  using run_inv_resetRun[of s W H]
  by (simp add: startGame_def run_inv_def bounds_def pickups_ok_def)

lemma run_inv_mode_keys:
  "run_inv (s\<lparr>mode := m\<rparr>) = run_inv s" "run_inv (s\<lparr>keys := ks\<rparr>) = run_inv s"
  "run_inv (setTimeMode tm s) = run_inv s" "run_inv (keyUp k s) = run_inv s"
  by (simp_all add: run_inv_def bounds_def pickups_ok_def setTimeMode_def keyUp_def
      split: timeMode.split)

lemma run_inv_keyDown: "run_inv s \<Longrightarrow> run_inv (keyDown k isTyping W H s)"
  by (simp add: keyDown_def Let_def run_inv_mode_keys run_inv_startGame run_inv_resetRun)

lemma run_inv_init: "run_inv (init_game b t0 rnd)"
  by (simp add: init_game_def run_inv_def bounds_def pickups_ok_def)

lemma run_inv_reachable: "reachable s \<Longrightarrow> run_inv s"
  by (induction rule: reachable.induct)
     (simp_all add: run_inv_init run_inv_frame run_inv_keyDown run_inv_mode_keys)

text \<open>
  C3. In every state the program can reach, every heart holds between 0 and 100, the corn
  counter is not negative and the index of the active heart is below \<open>heartsMax\<close>.
  Together with the shape of reachable states (one array entry per heart, pickups worth
  1 or 3) these bounds are kept by damage of any amount that is not negative, by the
  pickup loop and by the egg loop.
\<close>

theorem bounds_hold:
  "(reachable s \<longrightarrow> bounds s)
   \<and> (run_inv s \<longrightarrow> bounds s)
   \<and> (run_inv s \<and> 0 \<le> amount \<longrightarrow> run_inv (hurt ob amount s))
   \<and> (run_inv s \<longrightarrow> run_inv (pickup_pass hb s))
   \<and> (run_inv s \<longrightarrow> run_inv (egg_pass hb s))"
  using run_inv_reachable[of s] run_inv_hurt[of s amount ob] run_inv_pickup_pass[of s hb] run_inv_egg_pass[of s hb]
  by (auto simp: run_inv_def)

theorem bounds_hold_witness:
  "reachable (frame 16 800 600 (keyDown ''Enter'' False 800 600 (init_game 0 0 (\<lambda>n. 1 / 2))))
   \<and> bounds (frame 16 800 600 (keyDown ''Enter'' False 800 600 (init_game 0 0 (\<lambda>n. 1 / 2))))
   \<and> run_inv ex_low \<and> (0 :: real) \<le> 12
   \<and> run_inv (hurt 0 12 ex_low)
   \<and> run_inv (pickup_pass (hitbox ex_low) ex_low)
   \<and> run_inv (egg_pass (hitbox ex_low) ex_low)"
proof -
  have "random_ok (init_game 0 0 (\<lambda>n. 1 / 2))"
    by (simp add: random_ok_def init_game_def)
  then have r: "reachable (frame 16 800 600 (keyDown ''Enter'' False 800 600
      (init_game 0 0 (\<lambda>n. 1 / 2))))"
    by (intro r_frame r_keyDown r_init)
  have i: "run_inv ex_low"
    by (simp add: run_inv_def bounds_def pickups_ok_def ex_low_def ex_front_def ex_run_def
        init_game_def)
  show ?thesis
    using r i
      bounds_hold [where s = "frame 16 800 600 (keyDown ''Enter'' False 800 600
        (init_game 0 0 (\<lambda>n. 1 / 2)))"]
      bounds_hold [where s = ex_low and amount = 12 and ob = 0 and hb = "hitbox ex_low"]
    by simp
qed

subsection \<open>Constants and index ranges\<close>

lemma length_fold_update [simp]:
  "length (fold (\<lambda>i hs. hs[i := f i hs]) js xs) = length xs"
  by (induction js arbitrary: xs) simp_all

lemma stable_simple:
  "stable (world_dims W H s) = stable s"
  "stable (smooth_hearts dt tg s) = stable s"
  "stable (idle_update dt s) = stable s"
  "stable (ramp dt s) = stable s"
  "stable (movement dt s) = stable s"
  "stable (jump_timers dt s) = stable s"
  "stable (do_jump s) = stable s"
  "stable (flight dt s) = stable s"
  "stable (cluck dt s) = stable s"
  "stable (drop_through dt s) = stable s"
  "stable (physics dt H s) = stable s"
  "stable (update_pickups dt s) = stable s"
  "stable (update_eggs dt s) = stable s"
  "stable (update_particles dt s) = stable s"
  "stable (sticky s) = stable s"
  "stable (floor_landing landed wasOnGround s) = stable s"
  "stable (refuel dt s) = stable s"
  "stable (anim_step dt s) = stable s"
  "stable (first_placement W s) = stable s"
  "stable (gameOver s) = stable s"
  "stable (setTimeMode m s) = stable s"
  "stable (keyUp k s) = stable s"
  "stable (render W H s) = stable s"
  "stable (knock_back ob a s) = stable s"
  "stable (heart_lost s) = stable s"
  by (simp_all add: stable_def world_dims_def smooth_hearts_def idle_update_def ramp_def
      movement_def jump_timers_def do_jump_def flight_def cluck_def drop_through_def physics_def
      update_pickups_def update_eggs_def update_particles_def sticky_def floor_landing_def
      refuel_def anim_step_def first_placement_def gameOver_def setTimeMode_def keyUp_def
      render_def knock_back_def heart_lost_def
      Let_def split_def Math_random_eq rand_eq burst_fields
      split: option.split timeMode.split)

lemma stable_burst:
  "stable (featherBurst x y s) = stable s" "stable (dustPuff x y s) = stable s"
  "stable (yolkBurst x y s) = stable s"
  by (simp_all add: stable_def burst_fields)

lemma stable_upd:
  "stable (s\<lparr>rng := v0\<rparr>) = stable s" "stable (s\<lparr>sp_cd := v1\<rparr>) = stable s"
  "stable (s\<lparr>runChunksLeft := v2\<rparr>) = stable s" "stable (s\<lparr>needLanding := v3\<rparr>) = stable s"
  "stable (s\<lparr>platformSpawner_cd := v4\<rparr>) = stable s"
  "stable (s\<lparr>eggSpawner_cd := v5\<rparr>) = stable s"
  "stable (s\<lparr>terrain_level := v6\<rparr>) = stable s" "stable (s\<lparr>terrain_runLeft := v7\<rparr>) = stable s"
  "stable (s\<lparr>objs := v8\<rparr>) = stable s" "stable (s\<lparr>next_ref := v9\<rparr>) = stable s"
  "stable (s\<lparr>obstacles := v10\<rparr>) = stable s" "stable (s\<lparr>platforms := v11\<rparr>) = stable s"
  "stable (s\<lparr>eggs := v12\<rparr>) = stable s" "stable (s\<lparr>particles := v13\<rparr>) = stable s"
  "stable (s\<lparr>pickups := v14\<rparr>) = stable s" "stable (s\<lparr>corn := v15\<rparr>) = stable s"
  "stable (s\<lparr>score := v16\<rparr>) = stable s" "stable (s\<lparr>shake := v17\<rparr>) = stable s"
  "stable (s\<lparr>mode := v18\<rparr>) = stable s" "stable (s\<lparr>keys := v19\<rparr>) = stable s"
  "stable (s\<lparr>last_ms := v20\<rparr>) = stable s" "stable (s\<lparr>st_dt := v21\<rparr>) = stable s"
  "stable (s\<lparr>st_t := v22\<rparr>) = stable s"
  by (simp_all add: stable_def)

lemma stable_scroll: "stable (scroll_objs pool dx s) = stable s"
  unfolding scroll_objs_def by (induction pool arbitrary: s) (simp_all add: stable_upd)

lemma scroll_pools: "obstacles (scroll_objs pool dx s) = obstacles s"
  "platforms (scroll_objs pool dx s) = platforms s"
  unfolding scroll_objs_def by (induction pool arbitrary: s) simp_all

lemma stable_pools:
  "stable (update_obstacles dt s) = stable s" "stable (update_platforms dt s) = stable s"
  by (simp_all add: update_obstacles_def update_platforms_def Let_def stable_upd stable_scroll)

lemma stable_draws:
  "stable (snd (Math_random s)) = stable s" "stable (snd (rand a b s)) = stable s"
  "stable (snd (randi a b s)) = stable s" "stable (snd (pick s)) = stable s"
  "stable (snd (makeWH t s)) = stable s"
  by (simp_all add: Math_random_eq rand_eq randi_eq pick_snd makeWH_snd stable_upd)

lemma stable_spawn:
  "stable (spawnPlatform W w y xo knd s) = stable s"
  "stable (spawnObstacle W w h knd xo s) = stable s"
  "stable (spawnCorn W xo s) = stable s"
  "stable (spawnBigCorn W xo s) = stable s"
  "stable (spawnEgg W xo s) = stable s"
  by (simp_all add: spawnPlatform_def spawnObstacle_def spawnCorn_def spawnBigCorn_def
      spawnEgg_def rand_eq randi_eq Let_def split_def stable_upd split: option.split)

lemma stable_chunk:
  "stable (snd (second_obstacle W c x1 w1 s)) = stable s"
  "stable (chunk_corn W c e s) = stable s"
  "stable (chunk_done s) = stable s"
  "stable (no_run s) = stable s"
  by (simp_all add: second_obstacle_def chunk_corn_def chunk_done_def no_run_def
      Let_def split_def stable_draws stable_spawn stable_upd)

lemma stable_emit_chunk: "stable (emit_chunk W s) = stable s"
  by (simp add: emit_chunk_def Let_def split_def stable_draws stable_spawn stable_chunk)

lemma stable_spawner_body: "stable (spawner_body W s) = stable s"
  by (simp add: spawner_body_def Let_def split_def stable_draws stable_chunk stable_emit_chunk
      stable_upd)

lemma stable_spawner_loop: "stable (spawner_loop W i s) = stable s"
proof (induction W i s rule: spawner_loop.induct)
  case (1 W iters s)
  show ?case
  proof (cases "sp_cd s \<le> 0 \<and> iters < 6")
    case True
    then have "spawner_loop W iters s = spawner_loop W (iters + 1) (spawner_body W s)"
      by (subst spawner_loop.simps) simp
    then show ?thesis using "1.IH" True by (simp add: stable_spawner_body)
  next
    case False
    then have "spawner_loop W iters s = s" by (subst spawner_loop.simps) auto
    then show ?thesis by simp
  qed
qed

lemma stable_fold:
  assumes "\<And>i s. stable (F i s) = stable s"
  shows "stable (fold F js s) = stable s"
  by (induction js arbitrary: s) (simp_all add: assms)

lemma stable_stairs: "stable (snd (spawnStairs W a b x s)) = stable s"
  by (simp add: spawnStairs_def Let_def stable_fold stable_spawn)

lemma stable_terrain:
  "stable (plateau_shelf W x s) = stable s" "stable (terrain_start s) = stable s"
  by (simp_all add: plateau_shelf_def terrain_start_def Let_def split_def stable_draws
      stable_spawn stable_upd)

lemma stable_terrain_segment: "stable (terrain_segment W s) = stable s"
  by (simp add: terrain_segment_def Let_def split_def stable_draws stable_spawn stable_terrain
      stable_stairs stable_upd)

lemma stable_spawners: "stable (spawners dt W s) = stable s"
  by (simp add: spawners_def obstacle_spawner_def platform_spawner_def egg_spawner_def Let_def
      split_def stable_draws stable_spawn stable_terrain stable_terrain_segment
      stable_spawner_loop stable_upd)

lemma stable_land_scan: "stable (snd (land_scan pb b w rs s)) = stable s"
  by (induction rs) (simp_all add: Let_def stable_def burst_fields)

lemma stable_landing: "stable (landing prevY wasOnGround s) = stable s"
  by (simp add: landing_def platform_landing_def obstacle_landing_def Let_def split_def
      stable_simple stable_land_scan)

lemma stable_hurt: "stable (hurt ob a s) = stable s"
  by (simp add: hurt_def Let_def stable_simple stable_burst)

lemma stable_damage_scan: "stable (damage_scan hb rs s) = stable s"
  by (induction rs) (simp_all add: Let_def stable_hurt)

lemma stable_pickup_scan: "stable (snd (pickup_scan hb ps s)) = stable s"
  by (induction ps arbitrary: s)
     (simp_all add: split_def Let_def collect_def stable_burst stable_upd)

lemma stable_egg_scan: "stable (snd (egg_scan hb es s)) = stable s"
  by (induction es arbitrary: s)
     (simp_all add: split_def Let_def smash_def stable_burst stable_upd)

lemma stable_collisions: "stable (collisions s) = stable s"
  by (simp add: collisions_def Let_def damage_pass_def pickup_pass_def egg_pass_def split_def
      stable_damage_scan stable_pickup_scan stable_egg_scan stable_upd)

lemma stable_update: "stable (update dt W H s) = stable s"
  by (simp add: update_def Let_def control_def move_entities_def stable_simple stable_pools
      stable_spawners stable_landing stable_collisions stable_upd)

lemma stable_frame: "stable (frame tnow W H s) = stable s"
  by (simp add: frame_def Let_def stable_update stable_simple stable_upd)

lemma stable_resetRun: "stable (resetRun W H s) = stable s"
  by (simp add: resetRun_def Let_def split_def randi_eq setTimeMode_def stable_def
      split: timeMode.split)

lemma stable_keyDown: "stable (keyDown k isTyping W H s) = stable s"
  by (simp add: keyDown_def Let_def startGame_def stable_resetRun stable_simple stable_upd)

text \<open>In every reachable state the constants of the program have the values of the
  source, the two arrays of hearts have two entries, and the random source yields
  numbers in \<open>[0, 1)\<close>; so every index the program uses is in range.\<close>

lemma reachable_stable:
  "reachable s \<Longrightarrow>
     stable s = (2, 2, random s, 54, 44, 2400, - 760, 96, 5, 0.75) \<and> random_ok s"
proof (induction rule: reachable.induct)
  case (r_init b t0 rnd)
  then show ?case by (simp add: stable_def init_game_def)
next
  case (r_frame s tnow W H)
  have "stable (frame tnow W H s) = stable s" by (rule stable_frame)
  then show ?case using r_frame.IH by (simp add: stable_def random_ok_def)
next
  case (r_keyDown s k isTyping W H)
  have "stable (keyDown k isTyping W H s) = stable s" by (rule stable_keyDown)
  then show ?case using r_keyDown.IH by (simp add: stable_def random_ok_def)
next
  case (r_keyUp s k)
  have "stable (keyUp k s) = stable s" by (rule stable_simple)
  then show ?case using r_keyUp.IH by (simp add: stable_def random_ok_def)
qed

lemma pick_in_range:
  assumes "random_ok s"
  shows "nat \<lfloor>fst (randi 0 (of_nat (length obstacleTypes) - 1) s)\<rfloor> < length obstacleTypes"
proof -
  have r: "0 \<le> random s (rng s)" "random s (rng s) < 1"
    using assms by (auto simp: random_ok_def)
  define k where "k = \<lfloor>random s (rng s) * 4\<rfloor>"
  have "0 \<le> k" "k < 4" unfolding k_def using r by (simp_all add: floor_less_iff)
  moreover have "fst (randi 0 (of_nat (length obstacleTypes) - 1) s) = of_int k"
    by (simp add: randi_eq Math_floor_def k_def obstacleTypes_def)
  ultimately show ?thesis by (simp add: obstacleTypes_def)
qed


subsection \<open>Flight\<close>




































subsection \<open>Drop-through\<close>

lemma drop_through_fires:
  "drop_through dt s =
     (if held_down s \<and> p_onGround s \<and> p_ground s \<noteq> None
      then s\<lparr>p_drop := 0.35, p_ground := None, p_onGround := False, p_vy := max (p_vy s) 120\<rparr>
      else s\<lparr>p_drop := max 0 (p_drop s - dt)\<rparr>)"
  by (auto simp: drop_through_def Let_def held_down_def)

lemma no_platform_landing_while_dropping:
  "0 < p_drop s \<Longrightarrow> platform_landing prevY wasOnGround s = (False, s)"
  by (simp add: platform_landing_def)

lemma tick_on_block:
  "p_drop (update (1 / 60) 800 600 ex_on_block) = 0.35
   \<and> p_ground (update (1 / 60) 800 600 ex_on_block) = Some 0
   \<and> p_onGround (update (1 / 60) 800 600 ex_on_block)"
proof -
  define s0 where "s0 = world_dims 800 600 (ex_on_block\<lparr>st_dt := 1 / 60, st_t := st_t ex_on_block + 1 / 60\<rparr>)"
  define s2 where "s2 = control (1 / 60) s0"
  define s3 where "s3 = physics (1 / 60) 600 s2"
  define s4 where "s4 = spawners (1 / 60) 800 s3"
  define s5 where "s5 = move_entities (1 / 60) s4"
  define s6 where "s6 = landing (p_y s2) (p_onGround s2) s5"
  define s7 where "s7 = anim_step (1 / 60) (refuel (1 / 60) s6)"
  define s8 where "s8 = collisions s7"
  define s9 where "s9 = first_placement 800 (s8\<lparr>shake := max 0 (shake s8 - 1 / 60)\<rparr>)"
  have f0: "mode s0 = Playing" "keys s0 = {''ArrowDown''}" "p_x s0 = 196" "p_y s0 = 390"
    "p_vx s0 = 0" "p_vy s0 = 0" "p_w s0 = 54" "p_h s0 = 44" "p_onGround s0"
    "p_ground s0 = Some 0" "p_drop s0 = 0" "p_jumpBuffered s0 = 0" "p_flyHold s0 = 0"
    "p_cluckCd s0 = 0" "flyFuel s0 = 5" "flyFuelMax s0 = 5" "sp_cd s0 = 0.35"
    "platformSpawner_cd s0 = 1.4" "eggSpawner_cd s0 = 1.2" "obstacles s0 = [0]"
    "platforms s0 = []" "pickups s0 = []" "eggs s0 = []" "objs s0 0 = ex_block 200"
    "floorY s0 = 468" "leftBound s0 = 64" "rightBound s0 = 496" "gravity s0 = 2400"
    "st_t s0 = 1 / 60" "difficulty s0 = 0" "p_invuln s0 = 0"
    by (simp_all add: s0_def world_dims_def ex_on_block_def ex_front_def ex_run_def init_game_def
        Math_floor_def)
  have f2: "mode s2 = Playing" "p_x s2 = 196" "p_y s2 = 390"
    "p_vx s2 = 0" "p_vy s2 = 120" "p_w s2 = 54" "p_h s2 = 44" "\<not> p_onGround s2"
    "p_ground s2 = None" "p_drop s2 = 0.35"
    "flyFuel s2 = 5" "flyFuelMax s2 = 5" "sp_cd s2 = 0.35"
    "platformSpawner_cd s2 = 1.4" "eggSpawner_cd s2 = 1.2" "obstacles s2 = [0]"
    "platforms s2 = []" "pickups s2 = []" "eggs s2 = []" "objs s2 0 = ex_block 200"
    "floorY s2 = 468" "leftBound s2 = 64" "rightBound s2 = 496" "gravity s2 = 2400"
    "st_t s2 = 1 / 60" "speed s2 = 216091 / 600" "p_invuln s2 = 0"
    by (simp_all add: s2_def control_def ramp_def smooth_hearts_def movement_def jump_timers_def
        do_jump_def flight_def isFlying_def cluck_def drop_through_def held_left_def
        held_right_def held_jump_def held_down_def clamp_def lerp_def Let_def f0)
  have f3: "p_x s3 = 196" "p_y s3 = 1178 / 3" "p_vy s3 = 160" "p_w s3 = 54" "p_h s3 = 44"
    "\<not> p_onGround s3" "p_ground s3 = None" "p_drop s3 = 0.35"
    "flyFuel s3 = 5" "flyFuelMax s3 = 5" "sp_cd s3 = 0.35"
    "platformSpawner_cd s3 = 1.4" "eggSpawner_cd s3 = 1.2" "obstacles s3 = [0]"
    "platforms s3 = []" "pickups s3 = []" "eggs s3 = []" "objs s3 0 = ex_block 200"
    "floorY s3 = 468" "st_t s3 = 1 / 60" "speed s3 = 216091 / 600"
    by (simp_all add: s3_def physics_def clamp_def Math_floor_def Let_def f2)
  have l: "obstacle_spawner (1 / 60) 800 s3 = s3\<lparr>sp_cd := 1 / 3\<rparr>"
    unfolding obstacle_spawner_def by (subst spawner_loop.simps) (simp add: f3)
  have m: "platform_spawner (1 / 60) 800 (s3\<lparr>sp_cd := 1 / 3\<rparr>)
      = s3\<lparr>sp_cd := 1 / 3, platformSpawner_cd := 83 / 60\<rparr>"
    by (simp add: platform_spawner_def Let_def f3)
  have e4: "s4 = s3\<lparr>sp_cd := 1 / 3, platformSpawner_cd := 83 / 60, eggSpawner_cd := 71 / 60\<rparr>"
    by (simp add: s4_def spawners_def l m egg_spawner_def Let_def f3)
  have f4: "p_x s4 = 196" "p_y s4 = 1178 / 3" "p_vy s4 = 160" "p_w s4 = 54" "p_h s4 = 44"
    "\<not> p_onGround s4" "p_ground s4 = None" "p_drop s4 = 0.35"
    "flyFuel s4 = 5" "flyFuelMax s4 = 5" "obstacles s4 = [0]"
    "platforms s4 = []" "pickups s4 = []" "eggs s4 = []" "objs s4 0 = ex_block 200"
    "floorY s4 = 468" "st_t s4 = 1 / 60" "speed s4 = 216091 / 600"
    by (simp_all add: e4 f3)
  have f5: "p_x s5 = 196" "p_y s5 = 1178 / 3" "p_vy s5 = 160" "p_w s5 = 54" "p_h s5 = 44"
    "\<not> p_onGround s5" "p_ground s5 = None" "p_drop s5 = 0.35"
    "flyFuel s5 = 5" "flyFuelMax s5 = 5" "obstacles s5 = [0]"
    "platforms s5 = []" "pickups s5 = []" "eggs s5 = []"
    "objs s5 0 = ex_block (200 - 216091 / 36000)"
    "floorY s5 = 468" "st_t s5 = 1 / 60"
    by (simp_all add: s5_def move_entities_def update_obstacles_def update_platforms_def
        update_pickups_def update_eggs_def update_particles_def scroll_objs_def Let_def f4
        ex_block_def)
  define s5a where "s5a = s5\<lparr>p_y := 390, p_vy := 0, p_onGround := True, p_ground := Some 0\<rparr>"
  have e6: "s6 = dustPuff (p_x s5a + p_w s5a * 0.4) (e_y (objs s5 0) + 2) s5a"
    by (simp add: s6_def landing_def sticky_def platform_landing_def obstacle_landing_def
        floor_landing_def Let_def f5 f2 ex_block_def s5a_def)
  have f6: "p_x s6 = 196" "p_y s6 = 390" "p_w s6 = 54" "p_h s6 = 44"
    "p_onGround s6" "p_ground s6 = Some 0" "p_drop s6 = 0.35"
    "flyFuel s6 = 5" "flyFuelMax s6 = 5" "obstacles s6 = [0]"
    "pickups s6 = []" "eggs s6 = []" "objs s6 0 = ex_block (200 - 216091 / 36000)"
    "floorY s6 = 468" "st_t s6 = 1 / 60"
    by (simp_all add: e6 burst_fields s5a_def f5)
  have f7: "p_x s7 = 196" "p_y s7 = 390" "p_w s7 = 54" "p_h s7 = 44"
    "p_onGround s7" "p_ground s7 = Some 0" "p_drop s7 = 0.35" "obstacles s7 = [0]"
    "pickups s7 = []" "eggs s7 = []" "objs s7 0 = ex_block (200 - 216091 / 36000)"
    "floorY s7 = 468" "st_t s7 = 1 / 60"
    by (simp_all add: s7_def refuel_def anim_step_def Let_def f6)
  have e8: "s8 = s7\<lparr>pickups := [], eggs := []\<rparr>"
    by (simp add: s8_def collisions_def damage_pass_def pickup_pass_def egg_pass_def hitbox_def
        hits_def aabb_def Let_def f7 ex_block_def)
  have f9: "p_y s9 = 390" "p_onGround s9" "p_ground s9 = Some 0" "p_drop s9 = 0.35"
    by (simp_all add: s9_def first_placement_def e8 f7)
  have m0: "\<not> mode s0 \<noteq> Playing" using f0(1) by simp
  have u: "update (1 / 60) 800 600 ex_on_block
      = (if \<not> p_onGround s2 \<and> p_y s9 > 600 + 80 then gameOver s9 else s9)"
    unfolding update_def Let_def s9_def s8_def s7_def s6_def s5_def s4_def s3_def s2_def s0_def
    by (simp only: m0[unfolded s0_def] if_False)
  show ?thesis using f9 by (simp add: u)
qed


text \<open>
  C9, at the input where the code departs from it: the player stands on an obstacle, not
  on a platform, and holds the down key. The drop-through block fires all the same: the
  timer is set to 0.35, the ground reference is cleared, the player is no longer on the
  ground and falls with velocity 120. At the end of that tick the obstacle pass has
  landed the player on the obstacle again, with the timer still running.
\<close>

theorem drop_through_on_obstacle:
  "held_down ex_on_block \<and> p_onGround ex_on_block
   \<and> p_ground ex_on_block = Some 0
   \<and> 0 \<in> set (obstacles ex_on_block) \<and> platforms ex_on_block = []
   \<and> e_kind (objs ex_on_block 0) = Block
   \<and> p_drop (drop_through (1 / 60) ex_on_block) = 0.35
   \<and> p_ground (drop_through (1 / 60) ex_on_block) = None
   \<and> \<not> p_onGround (drop_through (1 / 60) ex_on_block)
   \<and> p_vy (drop_through (1 / 60) ex_on_block) = 120
   \<and> p_drop (update (1 / 60) 800 600 ex_on_block) = 0.35
   \<and> p_ground (update (1 / 60) 800 600 ex_on_block) = Some 0
   \<and> p_onGround (update (1 / 60) 800 600 ex_on_block)"
  using tick_on_block
  by (simp add: drop_through_fires ex_on_block_def ex_front_def ex_run_def init_game_def
      held_down_def ex_block_def)

end
